theory Spec2Isabelle
  imports Complex_Main
begin

section \<open>Python values and exceptions\<close>

text \<open>
  Python exceptions are values of \<open>exn\<close>; a call that may raise returns \<open>exn + 'a\<close>
  with \<open>Inl\<close> for the raised exception.  A Python float is held as the real number it
  denotes.  Comparing two floats compares these numbers, and comparing a float with the
  literals 0.7 and 0.6 gives the same answer as comparing it with 7/10 and 6/10, since
  no float lies between such a literal and the decimal it is written as.  The float
  subtraction of the comparison stage rounds, and is modelled with its rounding
  (\<open>float_sub\<close> below); the F1 quotient is kept unrounded.
\<close>

datatype key = StrKey string | IntKey int

datatype exn =
    KeyError key
  | IndexError
  | ZeroDivisionError
  | ValueError string
  | TypeError string
  | MlflowException string
  | RequestException string
  | Exception string

text \<open>\<open>str(e)\<close>; the text of an exception is opaque here apart from its message.\<close>

fun str_exn :: "exn \<Rightarrow> string" where
  "str_exn (KeyError (StrKey k)) = [CHR 0x27] @ k @ [CHR 0x27]"
| "str_exn (KeyError (IntKey i)) = ''<int key>''"
| "str_exn IndexError = ''list index out of range''"
| "str_exn ZeroDivisionError = ''float division by zero''"
| "str_exn (ValueError m) = m"
| "str_exn (TypeError m) = m"
| "str_exn (MlflowException m) = m"
| "str_exn (RequestException m) = m"
| "str_exn (Exception m) = m"

text \<open>Python values as they occur in dictionaries, parameters and JSON replies.\<close>

datatype pyval =
    PNone
  | PBool bool
  | PInt int
  | PFloat real
  | PStr string
  | PList "pyval list"
  | PDict "(string \<times> pyval) list"

text \<open>Truthiness of a value in a condition.\<close>

fun truthy :: "pyval \<Rightarrow> bool" where
  "truthy PNone = False"
| "truthy (PBool b) = b"
| "truthy (PInt i) = (i \<noteq> 0)"
| "truthy (PFloat x) = (x \<noteq> 0)"
| "truthy (PStr s) = (s \<noteq> [])"
| "truthy (PList xs) = (xs \<noteq> [])"
| "truthy (PDict kvs) = (kvs \<noteq> [])"

text \<open>\<open>xs[0]\<close> raises \<open>IndexError\<close> on an empty sequence.\<close>

definition index0 :: "'a list \<Rightarrow> exn + 'a" where
  "index0 xs = (case xs of [] \<Rightarrow> Inl IndexError | x # _ \<Rightarrow> Inr x)"

text \<open>\<open>int(x)\<close> on a float truncates towards zero.\<close>

definition py_int :: "real \<Rightarrow> int" where
  "py_int x = (if 0 \<le> x then \<lfloor>x\<rfloor> else \<lceil>x\<rceil>)"

text \<open>
  Floats are IEEE-754 binary64 values: an integer of magnitude below \<open>2^53\<close> times a power
  of two with exponent from -1074 to 971.  \<open>round_to_double\<close> is the binary64 value
  nearest to a real, ties going to the even integer: the magnitude is scaled by powers
  of two into the interval from \<open>2^52\<close> to \<open>2^53\<close> (or, for subnormal values, until the
  exponent is -1074), rounded to an integer and scaled back.  Results of magnitude
  \<open>2^1024\<close> or more (infinities in the program) are outside the model.  A float literal
  denotes the binary64 value nearest to the decimal written, and \<open>x - y\<close> on floats is
  the binary64 value nearest to the exact difference.
\<close>

definition round_half_even :: "real \<Rightarrow> int" where
  "round_half_even a =
     (let f = \<lfloor>a\<rfloor> in
      if a - of_int f < 1 / 2 then f
      else if 1 / 2 < a - of_int f then f + 1
      else if even f then f else f + 1)"

function scale_down :: "real \<Rightarrow> int \<Rightarrow> real \<times> int" where
  "scale_down a e = (if 2 ^ 53 \<le> a then scale_down (a / 2) (e + 1) else (a, e))"
  by pat_completeness auto
termination
proof (relation "measure (\<lambda>(a, e). nat \<lceil>a\<rceil>)")
  show "wf (measure (\<lambda>(a, e). nat \<lceil>a\<rceil>))"
    by simp
next
  fix a :: real and e :: int
  assume big: "2 ^ 53 \<le> a"
  then have half: "a / 2 \<le> a - 1"
    by simp
  have "\<lceil>a / 2\<rceil> \<le> \<lceil>a - 1\<rceil>"
    using half by (rule ceiling_mono)
  moreover have "\<lceil>a - 1\<rceil> = \<lceil>a\<rceil> - 1"
    by simp
  moreover have "0 < \<lceil>a\<rceil>"
    using big by (simp add: zero_less_ceiling)
  ultimately have "nat \<lceil>a / 2\<rceil> < nat \<lceil>a\<rceil>"
    by linarith
  then show "((a / 2, e + 1), (a, e)) \<in> measure (\<lambda>(a, e). nat \<lceil>a\<rceil>)"
    by simp
qed

declare scale_down.simps [simp del]

function scale_up :: "real \<Rightarrow> int \<Rightarrow> real \<times> int" where
  "scale_up a e = (if a < 2 ^ 52 \<and> - 1074 < e then scale_up (a * 2) (e - 1) else (a, e))"
  by pat_completeness auto
termination
  by (relation "measure (\<lambda>(a, e). nat (e + 1074))") auto

declare scale_up.simps [simp del]

definition round_to_double :: "real \<Rightarrow> real" where
  "round_to_double x =
     (if x = 0 then 0
      else case scale_down \<bar>x\<bar> 0 of
             (a1, e1) \<Rightarrow>
               (case scale_up a1 e1 of
                  (a, e) \<Rightarrow>
                    if 0 \<le> e then sgn x * of_int (round_half_even a) * 2 ^ nat e
                    else sgn x * of_int (round_half_even a) / 2 ^ nat (- e)))"

definition float_sub :: "real \<Rightarrow> real \<Rightarrow> real" where
  "float_sub x y = round_to_double (x - y)"

text \<open>Float division: a zero divisor raises.\<close>

definition py_truediv :: "real \<Rightarrow> real \<Rightarrow> exn + real" where
  "py_truediv a b = (if b = 0 then Inl ZeroDivisionError else Inr (a / b))"

text \<open>
  A dictionary built by successive stores is an association list in store order;
  a lookup sees the latest store of the key.
\<close>

definition dict_get :: "('k \<times> 'v) list \<Rightarrow> 'k \<Rightarrow> 'v option" where
  "dict_get d k = map_of (rev d) k"

section \<open>metrics\_middleware.py\<close>

text \<open>
  \<open>st.session_state\<close> is a per-session dictionary; \<open>ACTIVE_USERS\<close> is the
  process-wide gauge.  \<open>time.time()\<close> is the argument \<open>now\<close>.
\<close>

record 'v streamlit =
  session_state :: "string \<rightharpoonup> 'v"
  ACTIVE_USERS :: real

definition track_active_users :: "'v \<Rightarrow> 'v streamlit \<Rightarrow> 'v streamlit" where
  "track_active_users now s =
     (if ''user_id'' \<notin> dom (session_state s)
      then s\<lparr>session_state := (session_state s)(''user_id'' \<mapsto> now),
             ACTIVE_USERS := ACTIVE_USERS s + 1\<rparr>
      else s)"

text \<open>Successive calls within one session, each with its own clock reading.\<close>

fun track_calls :: "'v list \<Rightarrow> 'v streamlit \<Rightarrow> 'v streamlit" where
  "track_calls [] s = s"
| "track_calls (now # rest) s = track_calls rest (track_active_users now s)"

section \<open>appgen.py\<close>

subsection \<open>Object detection\<close>

text \<open>
  The detector, the image decoder and the class-name table are external.  A box carries
  the tensors \<open>cls\<close>, \<open>conf\<close> and \<open>xyxy\<close> that the code indexes with \<open>[0]\<close>.
\<close>

record box =
  cls :: "real list"
  conf :: "real list"
  xyxy :: "real list list"

record detection =
  class_name :: string
  confidence :: real
  bbox :: "int \<times> int \<times> int \<times> int"

record ('f, 'img) yolo =
  image_open :: "'f \<Rightarrow> exn + 'img"
  predict :: "'img \<Rightarrow> exn + box list list"
  names :: "int \<rightharpoonup> string"

definition detect_box :: "(int \<rightharpoonup> string) \<Rightarrow> box \<Rightarrow> exn + detection" where
  "detect_box nm b =
     (case index0 (cls b) of Inl e \<Rightarrow> Inl e | Inr c \<Rightarrow>
      (case nm (py_int c) of None \<Rightarrow> Inl (KeyError (IntKey (py_int c))) | Some cname \<Rightarrow>
       (case index0 (conf b) of Inl e \<Rightarrow> Inl e | Inr cf \<Rightarrow>
        (case index0 (xyxy b) of Inl e \<Rightarrow> Inl e | Inr row \<Rightarrow>
         (case map py_int row of
            [x1, y1, x2, y2] \<Rightarrow>
              Inr \<lparr>class_name = cname, confidence = cf, bbox = (x1, y1, x2, y2)\<rparr>
          | _ \<Rightarrow> Inl (ValueError ''cannot unpack four values''))))))"

fun boxes_loop :: "(int \<rightharpoonup> string) \<Rightarrow> box list \<Rightarrow> detection list \<Rightarrow> exn + detection list" where
  "boxes_loop nm [] detected_objects = Inr detected_objects"
| "boxes_loop nm (b # bs) detected_objects =
     (case detect_box nm b of
        Inl e \<Rightarrow> Inl e
      | Inr d \<Rightarrow> boxes_loop nm bs (detected_objects @ [d]))"

fun results_loop :: "(int \<rightharpoonup> string) \<Rightarrow> box list list \<Rightarrow> detection list \<Rightarrow> exn + detection list" where
  "results_loop nm [] detected_objects = Inr detected_objects"
| "results_loop nm (boxes # rest) detected_objects =
     (case boxes_loop nm boxes detected_objects of
        Inl e \<Rightarrow> Inl e
      | Inr acc \<Rightarrow> results_loop nm rest acc)"

definition detect_objects ::
  "('f, 'img) yolo \<Rightarrow> 'f \<Rightarrow> real \<Rightarrow> exn + ('img \<times> detection list)" where
  "detect_objects model image' confidence_threshold =
     (case image_open model image' of Inl e \<Rightarrow> Inl e | Inr img_array \<Rightarrow>
      (case predict model img_array of Inl e \<Rightarrow> Inl e | Inr results \<Rightarrow>
       (case results_loop (names model) results [] of
          Inl e \<Rightarrow> Inl e
        | Inr detected_objects \<Rightarrow> Inr (img_array, detected_objects))))"

text \<open>
  The detection step of \<open>main\<close>: the slider value \<open>confidence_threshold\<close> is read from
  the sidebar, and the call is \<open>detect_objects(uploaded_file)\<close>, with the default 0.5.
\<close>

definition main_detect ::
  "('f, 'img) yolo \<Rightarrow> real \<Rightarrow> 'f option \<Rightarrow> (exn + ('img \<times> detection list)) option" where
  "main_detect model confidence_threshold uploaded_file =
     (case uploaded_file of
        None \<Rightarrow> None
      | Some f \<Rightarrow> Some (detect_objects model f (1 / 2)))"

subsection \<open>Drawing detections\<close>

text \<open>
  Image arrays live in a store, addressed by position; a variable holds an address.
  \<open>image.copy()\<close> allocates a new array; \<open>cv2.rectangle\<close> and \<open>cv2.putText\<close> write
  into the array they are given.  What they paint is external (\<open>rectangle\<close>, \<open>putText\<close>),
  as is the rendering \<open>fmt2f\<close> of a float with two decimals.
\<close>

record 'px cv2 =
  rectangle :: "'px \<Rightarrow> int \<times> int \<Rightarrow> int \<times> int \<Rightarrow> 'px"
  putText :: "'px \<Rightarrow> string \<Rightarrow> int \<times> int \<Rightarrow> 'px"
  fmt2f :: "real \<Rightarrow> string"

definition draw_detection :: "'px cv2 \<Rightarrow> detection \<Rightarrow> 'px \<Rightarrow> 'px" where
  "draw_detection cv det px =
     (case bbox det of (x1, y1, x2, y2) \<Rightarrow>
        let label = class_name det @ '' '' @ fmt2f cv (confidence det)
        in putText cv (rectangle cv px (x1, y1) (x2, y2)) label (x1, y1 - 10))"

fun draw_loop :: "'px cv2 \<Rightarrow> nat \<Rightarrow> detection list \<Rightarrow> 'px list \<Rightarrow> 'px list" where
  "draw_loop cv img_with_boxes [] store = store"
| "draw_loop cv img_with_boxes (det # dets) store =
     draw_loop cv img_with_boxes dets
       (store[img_with_boxes := draw_detection cv det (store ! img_with_boxes)])"

definition visualize_detections ::
  "'px cv2 \<Rightarrow> nat \<Rightarrow> detection list \<Rightarrow> 'px list \<Rightarrow> nat \<times> 'px list" where
  "visualize_detections cv image' detections store =
     (let img_with_boxes = length store;
          store1 = store @ [store ! image']
      in (img_with_boxes, draw_loop cv img_with_boxes detections store1))"

subsection \<open>Chat request\<close>

text \<open>
  The HTTP exchange (\<open>requests.post\<close>, \<open>raise_for_status\<close>, \<open>response.json()\<close>) is
  external: \<open>post url payload\<close> is either the exception it raises or the decoded reply.
  The payload is the dictionary built so far.
\<close>

datatype part = Text string | InlineData string string

type_synonym payload = "(string \<times> part list list) list"

text \<open>\<open>k in v\<close> and \<open>v[k]\<close>, \<open>v[0]\<close> on a decoded reply.\<close>

definition contains_str :: "string \<Rightarrow> string \<Rightarrow> bool" where
  "contains_str k s = list_ex (\<lambda>i. take (length k) (drop i s) = k) [0..<Suc (length s)]"

fun py_in :: "string \<Rightarrow> pyval \<Rightarrow> exn + bool" where
  "py_in k (PDict kvs) = Inr (k \<in> set (map fst kvs))"
| "py_in k (PList xs) = Inr (PStr k \<in> set xs)"
| "py_in k (PStr s) = Inr (contains_str k s)"
| "py_in k v = Inl (TypeError ''argument is not iterable'')"

fun getitem :: "pyval \<Rightarrow> string \<Rightarrow> exn + pyval" where
  "getitem (PDict kvs) k =
     (case dict_get kvs k of None \<Rightarrow> Inl (KeyError (StrKey k)) | Some v \<Rightarrow> Inr v)"
| "getitem v k = Inl (TypeError ''indices must be integers or value is not subscriptable'')"

fun getitem0 :: "pyval \<Rightarrow> exn + pyval" where
  "getitem0 (PList xs) = index0 xs"
| "getitem0 (PStr s) = (case s of [] \<Rightarrow> Inl IndexError | c # _ \<Rightarrow> Inr (PStr [c]))"
| "getitem0 (PDict kvs) = Inl (KeyError (IntKey 0))"
| "getitem0 v = Inl (TypeError ''value is not subscriptable'')"

definition extract_text :: "pyval \<Rightarrow> exn + pyval" where
  "extract_text response_json =
     (case getitem response_json ''candidates'' of Inl e \<Rightarrow> Inl e | Inr cands \<Rightarrow>
      (case getitem0 cands of Inl e \<Rightarrow> Inl e | Inr c0 \<Rightarrow>
       (case getitem c0 ''content'' of Inl e \<Rightarrow> Inl e | Inr content \<Rightarrow>
        (case getitem content ''parts'' of Inl e \<Rightarrow> Inl e | Inr parts \<Rightarrow>
         (case getitem0 parts of Inl e \<Rightarrow> Inl e | Inr p0 \<Rightarrow>
            getitem p0 ''text'')))))"

definition handle_reply :: "pyval \<Rightarrow> exn + pyval" where
  "handle_reply response_json =
     (case py_in ''candidates'' response_json of
        Inl e \<Rightarrow> Inl e
      | Inr False \<Rightarrow> Inr (PStr ''No response generated'')
      | Inr True \<Rightarrow>
          (case getitem response_json ''candidates'' of
             Inl e \<Rightarrow> Inl e
           | Inr cands \<Rightarrow>
               if truthy cands then extract_text response_json
               else Inr (PStr ''No response generated'')))"

definition base_url :: "string \<Rightarrow> string" where
  "base_url model_name =
     ''https://generativelanguage.googleapis.com/v1beta/models/'' @ model_name
       @ '':generateContent''"

definition send_amaliai_request ::
  "(string \<Rightarrow> payload \<Rightarrow> exn + pyval) \<Rightarrow> string \<Rightarrow> string \<Rightarrow> string option \<Rightarrow> string \<Rightarrow> bool
     \<Rightarrow> exn + pyval" where
  "send_amaliai_request post api_key prompt image_base64 model_name stream =
     (let payload0 = [(''contents'', [])] :: payload;
          built =
            (if image_base64 \<noteq> None \<and> image_base64 \<noteq> Some []
             then
               (let image_part = [Text prompt, InlineData ''image/png'' (the image_base64)]
                in (case dict_get payload0 ''contents'' of
                      None \<Rightarrow> Inl (KeyError (StrKey ''contents''))
                    | Some cs \<Rightarrow> Inr (payload0 @ [(''contents'', cs @ [image_part])])))
             else
               (case dict_get payload0 ''content'' of
                  None \<Rightarrow> Inl (KeyError (StrKey ''content''))
                | Some cs \<Rightarrow> Inr (payload0 @ [(''content'', cs @ [[Text prompt]])])))
      in case built of
           Inl e \<Rightarrow> Inl e
         | Inr payload \<Rightarrow>
             (case post (base_url model_name @ ''?key='' @ api_key) payload of
                Inl (RequestException m) \<Rightarrow> Inr (PStr (''Request failed: '' @ m))
              | Inl e \<Rightarrow> Inl e
              | Inr response_json \<Rightarrow> handle_reply response_json))"

section \<open>airflow\_dags/yolo\_training\_pipeline.py\<close>

subsection \<open>The tracking and registry service\<close>

text \<open>
  Modelled from the spec: the experiment tracker and model registry (MLflow) is an
  external service, absent from the repository.  The spec gives it runs that group
  parameters and metrics under a unique run identifier, and, per model name, versions
  with an increasing identifier, a lifecycle stage and tags.  Here a run identifier is
  the position of the run in \<open>mlruns\<close>, and version \<open>v\<close> is the entry at position
  \<open>v - 1\<close> of \<open>registry\<close> (versions count from 1).  \<open>train_calls\<close> counts the
  invocations of the external trainer.
\<close>

datatype stage = NoStage | Staging | Production | Archived

record mlrun =
  run_name :: string
  params :: "(string \<times> pyval) list"
  metrics :: "(string \<times> real) list"

record registry_version =
  current_stage :: stage
  version_run_id :: nat
  tags :: "(string \<times> string) list"

record world =
  mlruns :: "mlrun list"
  registry :: "registry_version list"
  train_calls :: nat

text \<open>Modelled from the spec: start a run under a new run identifier.\<close>

definition start_run :: "string \<Rightarrow> world \<Rightarrow> nat \<times> world" where
  "start_run name w =
     (length (mlruns w),
      w\<lparr>mlruns := mlruns w @ [\<lparr>run_name = name, params = [], metrics = []\<rparr>]\<rparr>)"

text \<open>Modelled from the spec: log a parameter, or a metric, under a run.\<close>

definition log_param :: "nat \<Rightarrow> string \<Rightarrow> pyval \<Rightarrow> world \<Rightarrow> world" where
  "log_param rid k v w =
     w\<lparr>mlruns := (mlruns w)[rid := (mlruns w ! rid)\<lparr>params := params (mlruns w ! rid) @ [(k, v)]\<rparr>]\<rparr>"

definition log_metric :: "nat \<Rightarrow> string \<Rightarrow> real \<Rightarrow> world \<Rightarrow> world" where
  "log_metric rid k x w =
     w\<lparr>mlruns := (mlruns w)[rid := (mlruns w ! rid)\<lparr>metrics := metrics (mlruns w ! rid) @ [(k, x)]\<rparr>]\<rparr>"

fun log_params :: "nat \<Rightarrow> (string \<times> pyval) list \<Rightarrow> world \<Rightarrow> world" where
  "log_params rid [] w = w"
| "log_params rid ((k, v) # rest) w = log_params rid rest (log_param rid k v w)"

text \<open>Modelled from the spec: get a run by its identifier.\<close>

definition get_run :: "nat \<Rightarrow> world \<Rightarrow> exn + mlrun" where
  "get_run rid w =
     (if rid < length (mlruns w) then Inr (mlruns w ! rid)
      else Inl (MlflowException ''Run not found''))"

text \<open>
  Modelled from the spec: register a model version; the new version gets the next
  identifier and the default stage.
\<close>

definition register_version :: "nat \<Rightarrow> world \<Rightarrow> nat \<times> world" where
  "register_version rid w =
     (Suc (length (registry w)),
      w\<lparr>registry := registry w @ [\<lparr>current_stage = NoStage, version_run_id = rid, tags = []\<rparr>]\<rparr>)"

text \<open>
  Modelled from the spec: the latest version at a stage, as a list with no element when
  no version is at that stage.
\<close>

definition get_latest_versions :: "world \<Rightarrow> stage \<Rightarrow> nat list" where
  "get_latest_versions w stg =
     (case filter (\<lambda>v. current_stage (registry w ! (v - 1)) = stg)
             (rev [1..<Suc (length (registry w))]) of
        [] \<Rightarrow> []
      | v # _ \<Rightarrow> [v])"

text \<open>
  Modelled from the spec: move a version to a stage, and tag a version; a version that
  is not in the registry is an error of the service.
\<close>

definition transition_model_version_stage :: "nat \<Rightarrow> stage \<Rightarrow> world \<Rightarrow> exn + world" where
  "transition_model_version_stage v stg w =
     (if 1 \<le> v \<and> v \<le> length (registry w)
      then Inr (w\<lparr>registry := (registry w)[v - 1 := (registry w ! (v - 1))\<lparr>current_stage := stg\<rparr>]\<rparr>)
      else Inl (MlflowException ''Model version not found''))"

definition set_model_version_tag :: "nat \<Rightarrow> string \<Rightarrow> string \<Rightarrow> world \<Rightarrow> exn + world" where
  "set_model_version_tag v k val w =
     (if 1 \<le> v \<and> v \<le> length (registry w)
      then Inr (w\<lparr>registry :=
                  (registry w)[v - 1 := (registry w ! (v - 1))\<lparr>tags := tags (registry w ! (v - 1)) @ [(k, val)]\<rparr>]\<rparr>)
      else Inl (MlflowException ''Model version not found''))"

subsection \<open>The record passed from stage to stage\<close>

record eval_metrics =
  map50 :: real
  map50_95 :: real
  precision :: real
  recall :: real
  f1_score :: real

record ab_results =
  new_model_version :: "nat option"
  prod_model_version :: "nat option"
  new_model_score :: real
  prod_model_score :: real
  improvement :: real
  significant_improvement :: bool

text \<open>
  \<open>model_info\<close> is a dictionary that gains keys stage by stage; a key not yet stored is
  \<open>None\<close> here and reading it raises \<open>KeyError\<close>.  (\<open>model_version\<close> is stored as Python's
  \<open>None\<close> by the training stage; the file path \<open>model_path\<close> is not modelled.)
\<close>

record model_info =
  run_id :: nat
  model_version :: "nat option"
  training_metrics :: "(string \<times> pyval) list"
  evaluation_metrics :: "eval_metrics option"
  model_quality :: "string option"
  ab_test_results :: "ab_results option"

subsection \<open>Dataset and training stages\<close>

definition dataset_info :: "(string \<times> pyval) list" where
  "dataset_info =
     [(''train_images'', PInt 1000), (''val_images'', PInt 200), (''test_images'', PInt 100),
      (''classes'', PList [PStr ''healthy'', PStr ''diseased'', PStr ''pest_damage'',
                          PStr ''nutrient_deficiency'']),
      (''dataset_version'', PStr ''1.0''),
      (''data_path'', PStr ''/opt/airflow/data/crop_disease_dataset'')]"

definition prepare_dataset :: "world \<Rightarrow> (string \<times> pyval) list \<times> world" where
  "prepare_dataset w =
     (case start_run ''dataset_preparation'' w of
        (rid, w1) \<Rightarrow>
          (dataset_info,
           log_metric rid ''total_images'' (1000 + 200 + 100) (log_params rid dataset_info w1)))"

definition training_params :: "(string \<times> pyval) list" where
  "training_params =
     [(''model_size'', PStr ''yolov8n''), (''epochs'', PInt 50), (''batch_size'', PInt 16),
      (''image_size'', PInt 640), (''learning_rate'', PFloat (1 / 100)),
      (''optimizer'', PStr ''SGD''), (''augmentation'', PBool True), (''device'', PStr ''cpu'')]"

text \<open>The run name \<open>yolo_training_<run id>\<close> is kept as the pair of its two parts.\<close>

definition train_config :: "nat \<Rightarrow> (string \<times> pyval) list" where
  "train_config rid =
     [(''data'', PStr ''/opt/airflow/data/dataset.yaml''), (''epochs'', PInt 50),
      (''batch'', PInt 16), (''imgsz'', PInt 640), (''lr0'', PFloat (1 / 100)),
      (''device'', PStr ''cpu''), (''project'', PStr ''/opt/airflow/runs''),
      (''name'', PList [PStr ''yolo_training_'', PInt (int rid)]),
      (''save_period'', PInt 10)]"

text \<open>\<open>isinstance(value, (int, float))\<close>; a Python bool is an int.\<close>

fun is_number :: "pyval \<Rightarrow> bool" where
  "is_number (PBool b) = True"
| "is_number (PInt i) = True"
| "is_number (PFloat x) = True"
| "is_number v = False"

fun number_value :: "pyval \<Rightarrow> real" where
  "number_value (PBool b) = (if b then 1 else 0)"
| "number_value (PInt i) = real_of_int i"
| "number_value (PFloat x) = x"
| "number_value v = 0"

fun log_numeric_metrics :: "nat \<Rightarrow> (string \<times> pyval) list \<Rightarrow> world \<Rightarrow> world" where
  "log_numeric_metrics rid [] w = w"
| "log_numeric_metrics rid ((k, v) # rest) w =
     log_numeric_metrics rid rest (if is_number v then log_metric rid k (number_value v) w else w)"

text \<open>
  The external trainer \<open>model.train(**train_config)\<close>: given the number of earlier
  invocations and the configuration, it raises or returns its results, whose
  \<open>results_dict\<close> may be missing.
\<close>

type_synonym trainer = "nat \<Rightarrow> (string \<times> pyval) list \<Rightarrow> exn + (string \<times> pyval) list option"

definition train_yolo_model ::
  "trainer \<Rightarrow> (string \<times> pyval) list \<Rightarrow> world \<Rightarrow> (exn + model_info) \<times> world" where
  "train_yolo_model trainer ds w =
     (case start_run ''yolo_training'' w of
        (rid, w1) \<Rightarrow>
          let w2 = log_params rid training_params w1;
              w3 = log_params rid ds w2;
              results = trainer (train_calls w3) (train_config rid);
              w4 = w3\<lparr>train_calls := Suc (train_calls w3)\<rparr>
          in (case results of
                Inl e \<Rightarrow>
                  (Inl e,
                   log_param rid ''error_message'' (PStr (str_exn e))
                     (log_param rid ''training_status'' (PStr ''failed'') w4))
              | Inr res \<Rightarrow>
                  let metrics0 = (case res of None \<Rightarrow> [] | Some d \<Rightarrow> d);
                      w5 = log_numeric_metrics rid metrics0 w4;
                      w6 = snd (register_version rid w5)
                  in (Inr \<lparr>run_id = rid, model_version = None, training_metrics = metrics0,
                           evaluation_metrics = None, model_quality = None,
                           ab_test_results = None\<rparr>,
                      w6)))"

subsection \<open>Evaluation stage\<close>

record val_results =
  box_map50 :: real
  box_map :: real
  box_mp :: real
  box_mr :: real

text \<open>The dictionary \<open>evaluation_metrics\<close>; its last entry divides by \<open>mp + mr\<close>.\<close>

definition compute_evaluation_metrics :: "val_results \<Rightarrow> exn + eval_metrics" where
  "compute_evaluation_metrics vr =
     (case py_truediv (2 * (box_mp vr * box_mr vr)) (box_mp vr + box_mr vr) of
        Inl e \<Rightarrow> Inl e
      | Inr f1 \<Rightarrow>
          Inr \<lparr>map50 = box_map50 vr, map50_95 = box_map vr, precision = box_mp vr,
               recall = box_mr vr, f1_score = f1\<rparr>)"

definition log_eval_metrics :: "nat \<Rightarrow> eval_metrics \<Rightarrow> world \<Rightarrow> world" where
  "log_eval_metrics rid em w =
     log_metric rid ''eval_f1_score'' (f1_score em)
       (log_metric rid ''eval_recall'' (recall em)
         (log_metric rid ''eval_precision'' (precision em)
           (log_metric rid ''eval_map50_95'' (map50_95 em)
             (log_metric rid ''eval_map50'' (map50 em) w))))"

text \<open>
  \<open>validation\<close> is what loading the model and \<open>model.val\<close> do: raise, or return the
  validation results.
\<close>

definition evaluate_model ::
  "exn + val_results \<Rightarrow> model_info \<Rightarrow> world \<Rightarrow> (exn + model_info) \<times> world" where
  "evaluate_model validation mi w =
     (let rid = run_id mi in
      if \<not> rid < length (mlruns w) then (Inl (MlflowException ''Run not found''), w)
      else
        (case (case validation of Inl e \<Rightarrow> Inl e | Inr vr \<Rightarrow> compute_evaluation_metrics vr) of
           Inl e \<Rightarrow>
             (Inl e,
              log_param rid ''error_message'' (PStr (str_exn e))
                (log_param rid ''evaluation_status'' (PStr ''failed'') w))
         | Inr em \<Rightarrow>
             let w1 = log_eval_metrics rid em w;
                 quality = (if map50 em > 7 / 10 then ''good'' else ''needs_improvement'');
                 w2 = log_param rid ''model_quality'' (PStr quality) w1
             in (Inr (mi\<lparr>evaluation_metrics := Some em, model_quality := Some quality\<rparr>), w2)))"

subsection \<open>Registration stage\<close>

text \<open>\<open>now\<close> is \<open>datetime.now().isoformat()\<close>.\<close>

definition register_model :: "string \<Rightarrow> model_info \<Rightarrow> world \<Rightarrow> (exn + model_info) \<times> world" where
  "register_model now mi w =
     (case model_quality mi of
        None \<Rightarrow> (Inl (KeyError (StrKey ''model_quality'')), w)
      | Some quality \<Rightarrow>
          (case register_version (run_id mi) w of
             (v, w1) \<Rightarrow>
               let mi1 = mi\<lparr>model_version := Some v\<rparr> in
               if quality = ''good'' then
                 (case transition_model_version_stage v Staging w1 of
                    Inl e \<Rightarrow> (Inl e, w1)
                  | Inr w2 \<Rightarrow>
                      (case set_model_version_tag v ''quality'' quality w2 of
                         Inl e \<Rightarrow> (Inl e, w2)
                       | Inr w3 \<Rightarrow>
                           (case set_model_version_tag v ''training_date'' now w3 of
                              Inl e \<Rightarrow> (Inl e, w3)
                            | Inr w4 \<Rightarrow> (Inr mi1, w4))))
               else (Inr mi1, w1)))"

subsection \<open>Comparison stage\<close>

definition opt_version :: "nat option \<Rightarrow> pyval" where
  "opt_version v = (case v of None \<Rightarrow> PNone | Some n \<Rightarrow> PInt (int n))"

definition ab_params :: "ab_results \<Rightarrow> (string \<times> pyval) list" where
  "ab_params ab =
     [(''new_model_version'', opt_version (new_model_version ab)),
      (''prod_model_version'', opt_version (prod_model_version ab)),
      (''new_model_score'', PFloat (new_model_score ab)),
      (''prod_model_score'', PFloat (prod_model_score ab)),
      (''improvement'', PFloat (improvement ab)),
      (''significant_improvement'', PBool (significant_improvement ab))]"

definition run_ab_test :: "model_info \<Rightarrow> world \<Rightarrow> (exn + model_info) \<times> world" where
  "run_ab_test mi w =
     (case index0 (get_latest_versions w Production) of
        Inr prod_model \<Rightarrow>
          (case evaluation_metrics mi of
             None \<Rightarrow> (Inl (KeyError (StrKey ''evaluation_metrics'')), w)
           | Some em \<Rightarrow>
               let new_model_score' = map50 em in
               (case get_run (version_run_id (registry w ! (prod_model - 1))) w of
                  Inl e \<Rightarrow> (Inl e, w)
                | Inr prod_run \<Rightarrow>
                    let prod_model_score' =
                          (case dict_get (metrics prod_run) ''eval_map50'' of
                             None \<Rightarrow> 0
                           | Some x \<Rightarrow> x);
                        improvement' = float_sub new_model_score' prod_model_score';
                        improvement_threshold = round_to_double (5 / 100);
                        ab = \<lparr>new_model_version = model_version mi,
                              prod_model_version = Some prod_model,
                              new_model_score = new_model_score',
                              prod_model_score = prod_model_score',
                              improvement = improvement',
                              significant_improvement = (improvement' > improvement_threshold)\<rparr>
                    in (case start_run ''ab_test_results'' w of
                          (rid, w1) \<Rightarrow>
                            (Inr (mi\<lparr>ab_test_results := Some ab\<rparr>),
                             log_params rid (ab_params ab) w1))))
      | Inl IndexError \<Rightarrow>
          (case evaluation_metrics mi of
             None \<Rightarrow> (Inl (KeyError (StrKey ''evaluation_metrics'')), w)
           | Some em \<Rightarrow>
               let ab = \<lparr>new_model_version = model_version mi,
                         prod_model_version = None,
                         new_model_score = map50 em,
                         prod_model_score = 0,
                         improvement = map50 em,
                         significant_improvement = True\<rparr>
               in (Inr (mi\<lparr>ab_test_results := Some ab\<rparr>), w))
      | Inl e \<Rightarrow> (Inl e, w))"

text \<open>
  The comparison verdict in the words of the specification, from the new version, its
  score and the version at stage Production, if any, with the mAP@0.5 stored by its
  originating run, if stored: with no Production version the previous version is null,
  the previous score 0.0 and the verdict significant; otherwise the previous score is
  the stored metric (0.0 when absent), the improvement is the new score minus the
  previous score, and the verdict is significant exactly when the improvement is
  greater than 0.05.  Scores are floats, so the difference is the float difference and
  0.05 is the float literal.  For the first model the improvement, the new score minus
  0.0, is the new score itself.
\<close>

definition reference_verdict :: "nat option \<Rightarrow> real \<Rightarrow> (nat \<times> real option) option \<Rightarrow> ab_results" where
  "reference_verdict new_version new_score production =
     (case production of
        None \<Rightarrow>
          \<lparr>new_model_version = new_version, prod_model_version = None,
           new_model_score = new_score, prod_model_score = 0,
           improvement = new_score, significant_improvement = True\<rparr>
      | Some (prev_version, stored) \<Rightarrow>
          \<lparr>new_model_version = new_version, prod_model_version = Some prev_version,
           new_model_score = new_score,
           prod_model_score = (case stored of None \<Rightarrow> 0 | Some x \<Rightarrow> x),
           improvement = float_sub new_score (case stored of None \<Rightarrow> 0 | Some x \<Rightarrow> x),
           significant_improvement =
             (float_sub new_score (case stored of None \<Rightarrow> 0 | Some x \<Rightarrow> x)
                > round_to_double (5 / 100))\<rparr>)"

subsection \<open>Promotion stage\<close>

definition archive_current_production :: "world \<Rightarrow> exn + world" where
  "archive_current_production w =
     (case index0 (get_latest_versions w Production) of
        Inr current_prod \<Rightarrow> transition_model_version_stage current_prod Archived w
      | Inl IndexError \<Rightarrow> Inr w
      | Inl e \<Rightarrow> Inl e)"

definition metrics_params :: "eval_metrics \<Rightarrow> pyval" where
  "metrics_params em =
     PDict [(''map50'', PFloat (map50 em)), (''map50_95'', PFloat (map50_95 em)),
            (''precision'', PFloat (precision em)), (''recall'', PFloat (recall em)),
            (''f1_score'', PFloat (f1_score em))]"

text \<open>
  \<open>fmt3f\<close> renders a float with three decimals.  A version \<open>None\<close> is not a version of
  the registry.
\<close>

definition promotion_reason :: "(real \<Rightarrow> string) \<Rightarrow> ab_results \<Rightarrow> string" where
  "promotion_reason fmt3f ab = ''A/B test improvement: '' @ fmt3f (improvement ab)"

definition promote_new_version ::
  "string \<Rightarrow> (real \<Rightarrow> string) \<Rightarrow> model_info \<Rightarrow> ab_results \<Rightarrow> world \<Rightarrow> (exn + string) \<times> world" where
  "promote_new_version now fmt3f mi ab w1 =
     (case model_version mi of
        None \<Rightarrow> (Inl (MlflowException ''Model version not found''), w1)
      | Some v \<Rightarrow>
          (case transition_model_version_stage v Production w1 of
             Inl e \<Rightarrow> (Inl e, w1)
           | Inr w2 \<Rightarrow>
               (case set_model_version_tag v ''promoted_to_production'' now w2 of
                  Inl e \<Rightarrow> (Inl e, w2)
                | Inr w3 \<Rightarrow>
                    (case set_model_version_tag v ''promotion_reason''
                            (promotion_reason fmt3f ab) w3 of
                       Inl e \<Rightarrow> (Inl e, w3)
                     | Inr w4 \<Rightarrow>
                         (case evaluation_metrics mi of
                            None \<Rightarrow> (Inl (KeyError (StrKey ''evaluation_metrics'')), w4)
                          | Some em \<Rightarrow>
                              (case start_run ''production_promotion'' w4 of
                                 (rid, w5) \<Rightarrow>
                                   (Inr ''promoted'',
                                    log_params rid
                                      [(''model_name'', PStr ''greenai-yolo-model''),
                                       (''model_version'', PInt (int v)),
                                       (''promoted_at'', PStr now),
                                       (''performance_metrics'', metrics_params em)]
                                      w5)))))))"

definition promote_to_production ::
  "string \<Rightarrow> (real \<Rightarrow> string) \<Rightarrow> model_info \<Rightarrow> world \<Rightarrow> (exn + string) \<times> world" where
  "promote_to_production now fmt3f mi w =
     (case ab_test_results mi of
        None \<Rightarrow> (Inl (KeyError (StrKey ''ab_test_results'')), w)
      | Some ab \<Rightarrow>
          (case model_quality mi of
             None \<Rightarrow> (Inl (KeyError (StrKey ''model_quality'')), w)
           | Some quality \<Rightarrow>
               let should_promote =
                     (quality = ''good'' \<and> significant_improvement ab \<and> new_model_score ab > 6 / 10)
               in if should_promote then
                    (case archive_current_production w of
                       Inl e \<Rightarrow> (Inl e, w)
                     | Inr w1 \<Rightarrow> promote_new_version now fmt3f mi ab w1)
                  else (Inr ''not_promoted'', w)))"

subsection \<open>Pipeline runs\<close>

text \<open>
  One run of the DAG: the tasks in their order, each started only when the one before
  it succeeded.  The inputs of a run are what the external validator does and the clock.
\<close>

record run_inputs =
  validation_outcome :: "exn + val_results"
  clock :: string

definition pipeline_run :: "trainer \<Rightarrow> (real \<Rightarrow> string) \<Rightarrow> run_inputs \<Rightarrow> world \<Rightarrow> world" where
  "pipeline_run trainer fmt3f inp w =
     (case prepare_dataset w of
        (ds, w0) \<Rightarrow>
          (case train_yolo_model trainer ds w0 of
             (Inl e, w1) \<Rightarrow> w1
           | (Inr mi1, w1) \<Rightarrow>
               (case evaluate_model (validation_outcome inp) mi1 w1 of
                  (Inl e, w2) \<Rightarrow> w2
                | (Inr mi2, w2) \<Rightarrow>
                    (case register_model (clock inp) mi2 w2 of
                       (Inl e, w3) \<Rightarrow> w3
                     | (Inr mi3, w3) \<Rightarrow>
                         (case run_ab_test mi3 w3 of
                            (Inl e, w4) \<Rightarrow> w4
                          | (Inr mi4, w4) \<Rightarrow>
                              snd (promote_to_production (clock inp) fmt3f mi4 w4))))))"

fun pipeline_runs :: "trainer \<Rightarrow> (real \<Rightarrow> string) \<Rightarrow> run_inputs list \<Rightarrow> world \<Rightarrow> world" where
  "pipeline_runs trainer fmt3f [] w = w"
| "pipeline_runs trainer fmt3f (inp # rest) w =
     pipeline_runs trainer fmt3f rest (pipeline_run trainer fmt3f inp w)"

text \<open>Version \<open>v\<close> is a version of the registry, and the stage it holds.\<close>

definition in_registry :: "world \<Rightarrow> nat \<Rightarrow> bool" where
  "in_registry w v = (1 \<le> v \<and> v \<le> length (registry w))"

text \<open>The versions that hold stage Production, in increasing order.\<close>

definition production_versions :: "world \<Rightarrow> nat list" where
  "production_versions w =
     filter (\<lambda>v. current_stage (registry w ! (v - 1)) = Production) [1..<Suc (length (registry w))]"

definition stage_of :: "world \<Rightarrow> nat \<Rightarrow> stage" where
  "stage_of w v = current_stage (registry w ! (v - 1))"

text \<open>
  Between two states of the tracker, the registry did not shrink and no version is at
  Production that was not at Production before.
\<close>

definition no_new_production :: "world \<Rightarrow> world \<Rightarrow> bool" where
  "no_new_production w w' \<longleftrightarrow>
     length (registry w) \<le> length (registry w') \<and>
     (\<forall>u. in_registry w' u \<and> stage_of w' u = Production \<longrightarrow>
          in_registry w u \<and> stage_of w u = Production)"

text \<open>
  The Production version the comparison looks at, in the words of the specification:
  none when no version is at stage Production, otherwise the most recent such version
  together with the mAP@0.5 metric stored by its originating run, if stored.
\<close>

definition production_entry :: "world \<Rightarrow> (nat \<times> real option) option" where
  "production_entry w =
     (if production_versions w = [] then None
      else let p = last (production_versions w)
           in Some (p, dict_get (metrics (mlruns w ! version_run_id (registry w ! (p - 1))))
                         ''eval_map50''))"

subsection \<open>Example inputs\<close>

text \<open>
  A tracker with no run and no version; a trainer whose first invocation raises and
  whose later invocations succeed; a trainer that always succeeds.
\<close>

definition fresh_world :: world where
  "fresh_world = \<lparr>mlruns = [], registry = [], train_calls = 0\<rparr>"

definition flaky_trainer :: trainer where
  "flaky_trainer n cfg = (if n = 0 then Inl (Exception ''CUDA out of memory'') else Inr None)"

definition steady_trainer :: trainer where
  "steady_trainer n cfg = Inr (Some [(''metrics/mAP50(B)'', PFloat (3 / 4))])"

text \<open>
  A tracker after two trainings: version 1 at Production, from run 0 with mAP@0.5 = 0.5;
  version 2 at Staging, from run 1.  The record handed to the promotion stage for
  version 2, of good quality and with a significant verdict, with a given new score.
\<close>

definition example_world :: world where
  "example_world =
     \<lparr>mlruns = [\<lparr>run_name = ''yolo_training'', params = [], metrics = [(''eval_map50'', 1 / 2)]\<rparr>,
                \<lparr>run_name = ''yolo_training'', params = [], metrics = [(''eval_map50'', 3 / 4)]\<rparr>],
      registry = [\<lparr>current_stage = Production, version_run_id = 0, tags = []\<rparr>,
                  \<lparr>current_stage = Staging, version_run_id = 1, tags = []\<rparr>],
      train_calls = 2\<rparr>"

definition example_metrics :: eval_metrics where
  "example_metrics =
     \<lparr>map50 = 3 / 4, map50_95 = 2 / 5, precision = 4 / 5, recall = 3 / 5, f1_score = 24 / 35\<rparr>"

definition example_info :: "real \<Rightarrow> model_info" where
  "example_info score =
     \<lparr>run_id = 1, model_version = Some 2, training_metrics = [],
      evaluation_metrics = Some example_metrics,
      model_quality = Some ''good'',
      ab_test_results =
        Some \<lparr>new_model_version = Some 2, prod_model_version = Some 1,
              new_model_score = score, prod_model_score = 1 / 2,
              improvement = score - 1 / 2, significant_improvement = True\<rparr>\<rparr>"

text \<open>The floats that Python writes 0.05, 0.1 and 0.55.\<close>

definition float_0_05 :: real where
  "float_0_05 = 3602879701896397 / 2 ^ 56"

definition float_0_1 :: real where
  "float_0_1 = 3602879701896397 / 2 ^ 55"

definition float_0_55 :: real where
  "float_0_55 = 2476979795053773 / 2 ^ 52"

text \<open>
  For the comparison stage: a tracker in which version 1 is at Production and comes from
  run 0, whose stored metrics are given, and version 2 is at Staging and comes from
  run 1; a tracker after a first training, in which version 1 (registered with the
  trained model) has no stage and version 2 is at Staging, both from run 1; and the
  record of version 2 before the comparison, with a given mAP@0.5.
\<close>

definition comparison_world :: "(string \<times> real) list \<Rightarrow> world" where
  "comparison_world stored =
     \<lparr>mlruns = [\<lparr>run_name = ''yolo_training'', params = [], metrics = stored\<rparr>,
                \<lparr>run_name = ''yolo_training'', params = [], metrics = []\<rparr>],
      registry = [\<lparr>current_stage = Production, version_run_id = 0, tags = []\<rparr>,
                  \<lparr>current_stage = Staging, version_run_id = 1, tags = []\<rparr>],
      train_calls = 2\<rparr>"

definition staging_world :: world where
  "staging_world =
     \<lparr>mlruns = [\<lparr>run_name = ''dataset_preparation'', params = [], metrics = []\<rparr>,
                \<lparr>run_name = ''yolo_training'', params = [], metrics = []\<rparr>],
      registry = [\<lparr>current_stage = NoStage, version_run_id = 1, tags = []\<rparr>,
                  \<lparr>current_stage = Staging, version_run_id = 1, tags = []\<rparr>],
      train_calls = 1\<rparr>"

definition candidate_info :: "real \<Rightarrow> model_info" where
  "candidate_info score =
     \<lparr>run_id = 1, model_version = Some 2, training_metrics = [],
      evaluation_metrics = Some (example_metrics\<lparr>map50 := score\<rparr>),
      model_quality = Some (if score > 7 / 10 then ''good'' else ''needs_improvement''),
      ab_test_results = None\<rparr>"

text \<open>Two pipeline runs, validated at mAP@0.5 = 0.75 and then 0.90.\<close>

definition example_runs :: "run_inputs list" where
  "example_runs =
     [\<lparr>validation_outcome =
         Inr \<lparr>box_map50 = 3 / 4, box_map = 2 / 5, box_mp = 4 / 5, box_mr = 3 / 5\<rparr>,
       clock = ''2024-01-01''\<rparr>,
      \<lparr>validation_outcome =
         Inr \<lparr>box_map50 = 9 / 10, box_map = 1 / 2, box_mp = 4 / 5, box_mr = 4 / 5\<rparr>,
       clock = ''2024-01-08''\<rparr>]"

section \<open>Verified properties\<close>

subsection \<open>Active-user tracking\<close>

lemma track_active_users_sets_id:
  "''user_id'' \<in> dom (session_state (track_active_users now s))"
  by (simp add: track_active_users_def)

lemma track_active_users_again:
  "''user_id'' \<in> dom (session_state s) \<Longrightarrow> track_active_users now s = s"
  by (simp add: track_active_users_def)

lemma track_calls_again:
  "''user_id'' \<in> dom (session_state s) \<Longrightarrow> track_calls ts s = s"
  by (induction ts arbitrary: s) (simp_all add: track_active_users_again)

text \<open>
  Claim C9.  The first call of a session (no \<open>user_id\<close> in the session state yet) stores
  a user id and adds exactly one to the active-user gauge; any later call in the same
  session changes neither the session state nor the gauge, so any number of calls in one
  session adds exactly one active user.
\<close>

theorem track_active_users_idempotent:
  "(''user_id'' \<notin> dom (session_state s) \<longrightarrow>
      track_active_users t s =
        s\<lparr>session_state := (session_state s)(''user_id'' \<mapsto> t),
          ACTIVE_USERS := ACTIVE_USERS s + 1\<rparr>)
   \<and> track_active_users t' (track_active_users t s) = track_active_users t s
   \<and> track_calls ts (track_active_users t s) = track_active_users t s"
  using track_active_users_sets_id [of t s]
  by (simp add: track_active_users_again track_calls_again)
    (simp add: track_active_users_def)

theorem track_active_users_idempotent_witness:
  "''user_id'' \<notin> dom (session_state
         \<lparr>session_state = (Map.empty :: string \<rightharpoonup> real), ACTIVE_USERS = 0\<rparr>)
   \<and> ACTIVE_USERS (track_active_users (17::real)
         \<lparr>session_state = Map.empty, ACTIVE_USERS = 0\<rparr>) = 1
   \<and> ACTIVE_USERS (track_calls [18, 19] (track_active_users (17::real)
         \<lparr>session_state = Map.empty, ACTIVE_USERS = 0\<rparr>)) = 1"
proof -
  let ?s = "\<lparr>session_state = Map.empty, ACTIVE_USERS = 0\<rparr> :: real streamlit"
  have fresh: "''user_id'' \<notin> dom (session_state ?s)"
    by simp
  note inst = track_active_users_idempotent [of ?s 17 18 "[18, 19]"]
  from inst fresh have first:
    "track_active_users 17 ?s =
       ?s\<lparr>session_state := (session_state ?s)(''user_id'' \<mapsto> 17),
          ACTIVE_USERS := ACTIVE_USERS ?s + 1\<rparr>"
    by blast
  from inst have later: "track_calls [18, 19] (track_active_users 17 ?s) = track_active_users 17 ?s"
    by blast
  have g1: "ACTIVE_USERS (track_active_users 17 ?s) = 1"
    by (subst first) simp
  have g2: "ACTIVE_USERS (track_calls [18, 19] (track_active_users 17 ?s)) = 1"
    by (simp only: later g1)
  from fresh g1 g2 show ?thesis
    by blast
qed

subsection \<open>Object detection and the confidence threshold\<close>

text \<open>
  Claim C8.  The list of detections returned by \<open>detect_objects\<close> does not depend on
  \<open>confidence_threshold\<close>: any two thresholds give the same result for the same image,
  and the detection step of \<open>main\<close> gives the same result for any two slider values.
\<close>

theorem detect_objects_ignores_threshold:
  "detect_objects model img t1 = detect_objects model img t2
   \<and> main_detect model s1 uploaded = main_detect model s2 uploaded"
  by (simp add: detect_objects_def main_detect_def)

subsection \<open>Drawing leaves the input image alone\<close>

lemma draw_loop_update:
  "a < length store \<Longrightarrow>
   draw_loop cv a dets store = store[a := fold (draw_detection cv) dets (store ! a)]"
  by (induction dets arbitrary: store) simp_all

text \<open>
  Claim C10.  \<open>visualize_detections\<close> returns a newly allocated array, different from
  its input; every array that existed before the call, the input image among them, has
  the contents it had before; the returned array is the input's contents with every
  detection drawn in order.
\<close>

theorem visualize_detections_frame:
  assumes "image' < length store"
      and "visualize_detections cv image' dets store = (out, store')"
  shows "store' ! image' = store ! image'
         \<and> out \<noteq> image'
         \<and> (\<forall>a < length store. store' ! a = store ! a)
         \<and> length store' = Suc (length store)
         \<and> store' ! out = fold (draw_detection cv) dets (store ! image')"
  using assms
  by (auto simp: visualize_detections_def Let_def draw_loop_update nth_append)

theorem visualize_detections_frame_witness:
  "(0::nat) < length [5::nat]
   \<and> visualize_detections
        \<lparr>rectangle = (\<lambda>px _ _. px + 1), putText = (\<lambda>px _ _. px + 10), fmt2f = (\<lambda>_. ''0.90'')\<rparr>
        0 [\<lparr>class_name = ''leaf'', confidence = 9 / 10, bbox = (1, 2, 3, 4)\<rparr>] [5::nat]
       = (1, [5, 16])
   \<and> [5, 16 :: nat] ! 0 = [5] ! 0 \<and> (1::nat) \<noteq> 0"
proof -
  let ?cv = "\<lparr>rectangle = (\<lambda>(px::nat) (_::int \<times> int) (_::int \<times> int). px + 1),
              putText = (\<lambda>(px::nat) (_::string) (_::int \<times> int). px + 10),
              fmt2f = (\<lambda>_::real. ''0.90'')\<rparr>"
  let ?dets = "[\<lparr>class_name = ''leaf'', confidence = 9 / 10, bbox = (1, 2, 3, 4)\<rparr>]"
  have a: "(0::nat) < length [5::nat]"
    by simp
  have run: "visualize_detections ?cv 0 ?dets [5::nat] = (1, [5, 16])"
    by (simp add: visualize_detections_def draw_detection_def)
  from visualize_detections_frame [OF a run] have "[5, 16 :: nat] ! 0 = [5] ! 0 \<and> (1::nat) \<noteq> 0"
    by blast
  with a run show ?thesis
    by blast
qed

subsection \<open>Chat request with a text prompt alone\<close>

text \<open>
  Claim C6 fails on the code.  With no image (\<open>image_base64\<close> absent) the payload is
  built by \<open>payload["content"].append(...)\<close> on a dictionary whose only key is
  \<open>"contents"\<close>: the call raises \<open>KeyError\<close> before any request is sent, whatever the
  prompt and whatever the endpoint would have answered.
\<close>

theorem send_amaliai_request_text_only_raises:
  "send_amaliai_request post api_key prompt None model_name stream
     = Inl (KeyError (StrKey ''content''))"
  by (simp add: send_amaliai_request_def dict_get_def)

subsection \<open>Tracker and registry: what each operation changes\<close>

lemma log_param_fields [simp]:
  "registry (log_param rid k v w) = registry w"
  "train_calls (log_param rid k v w) = train_calls w"
  "length (mlruns (log_param rid k v w)) = length (mlruns w)"
  by (simp_all add: log_param_def)

lemma log_metric_fields [simp]:
  "registry (log_metric rid k x w) = registry w"
  "train_calls (log_metric rid k x w) = train_calls w"
  "length (mlruns (log_metric rid k x w)) = length (mlruns w)"
  by (simp_all add: log_metric_def)

lemma log_params_registry [simp]: "registry (log_params rid kvs w) = registry w"
  by (induction rid kvs w rule: log_params.induct) simp_all

lemma log_params_train_calls [simp]: "train_calls (log_params rid kvs w) = train_calls w"
  by (induction rid kvs w rule: log_params.induct) simp_all

lemma log_params_length [simp]: "length (mlruns (log_params rid kvs w)) = length (mlruns w)"
  by (induction rid kvs w rule: log_params.induct) simp_all

lemma log_numeric_metrics_registry [simp]: "registry (log_numeric_metrics rid kvs w) = registry w"
  by (induction rid kvs w rule: log_numeric_metrics.induct) simp_all

lemma start_run_fields [simp]:
  "fst (start_run name w) = length (mlruns w)"
  "registry (snd (start_run name w)) = registry w"
  "train_calls (snd (start_run name w)) = train_calls w"
  "length (mlruns (snd (start_run name w))) = Suc (length (mlruns w))"
  by (simp_all add: start_run_def)

lemma production_versions_stage [simp]:
  "production_versions (w\<lparr>mlruns := r\<rparr>) = production_versions w"
  "production_versions (w\<lparr>train_calls := n\<rparr>) = production_versions w"
  by (simp_all add: production_versions_def)

lemma production_versions_cong:
  "registry w' = registry w \<Longrightarrow> production_versions w' = production_versions w"
  by (simp add: production_versions_def)

lemma set_production_versions:
  "set (production_versions w) = {v. in_registry w v \<and> stage_of w v = Production}"
  by (auto simp: production_versions_def in_registry_def stage_of_def simp del: upt_Suc)

lemma distinct_production_versions: "distinct (production_versions w)"
  by (simp add: production_versions_def del: upt_Suc)

lemma at_most_one_iff:
  "length (production_versions w) \<le> 1 \<longleftrightarrow>
     (\<forall>u u'. in_registry w u \<and> stage_of w u = Production \<and>
             in_registry w u' \<and> stage_of w u' = Production \<longrightarrow> u = u')"
proof -
  have "\<And>xs :: nat list. distinct xs \<Longrightarrow> length xs \<le> 1 \<longleftrightarrow> (\<forall>x\<in>set xs. \<forall>y\<in>set xs. x = y)"
  proof -
    fix xs :: "nat list" assume "distinct xs"
    then show "length xs \<le> 1 \<longleftrightarrow> (\<forall>x\<in>set xs. \<forall>y\<in>set xs. x = y)"
      by (cases xs; cases "tl xs") auto
  qed
  from this [OF distinct_production_versions, of w] show ?thesis
    by (simp add: set_production_versions) blast
qed

lemma get_latest_versions_Cons:
  "get_latest_versions w stg = p # ps \<Longrightarrow> ps = [] \<and> in_registry w p \<and> stage_of w p = stg"
proof -
  assume a: "get_latest_versions w stg = p # ps"
  then obtain rest where
    f: "filter (\<lambda>v. current_stage (registry w ! (v - 1)) = stg) (rev [1..<Suc (length (registry w))]) = p # rest"
    and ps: "ps = []"
    by (auto simp: get_latest_versions_def simp del: upt_Suc split: list.splits)
  have "p \<in> set (filter (\<lambda>v. current_stage (registry w ! (v - 1)) = stg) (rev [1..<Suc (length (registry w))]))"
    unfolding f by simp
  then show ?thesis using ps
    by (auto simp: in_registry_def stage_of_def simp del: upt_Suc)
qed

lemma get_latest_versions_Nil:
  "get_latest_versions w stg = [] \<longleftrightarrow> (\<forall>u. in_registry w u \<longrightarrow> stage_of w u \<noteq> stg)"
proof
  assume "get_latest_versions w stg = []"
  then have "filter (\<lambda>v. current_stage (registry w ! (v - 1)) = stg)
               (rev [1..<Suc (length (registry w))]) = []"
    by (auto simp: get_latest_versions_def simp del: upt_Suc split: list.splits)
  then show "\<forall>u. in_registry w u \<longrightarrow> stage_of w u \<noteq> stg"
    by (auto simp: filter_empty_conv in_registry_def stage_of_def simp del: upt_Suc)
next
  assume none: "\<forall>u. in_registry w u \<longrightarrow> stage_of w u \<noteq> stg"
  show "get_latest_versions w stg = []"
  proof (cases "get_latest_versions w stg")
    case Nil
    then show ?thesis .
  next
    case (Cons p ps)
    from get_latest_versions_Cons [OF Cons] none show ?thesis
      by blast
  qed
qed

lemma index0_latest_Inr:
  "index0 (get_latest_versions w stg) = Inr p \<Longrightarrow> in_registry w p \<and> stage_of w p = stg"
  by (cases "get_latest_versions w stg") (auto simp: index0_def dest: get_latest_versions_Cons)

lemma index0_latest_Inl:
  "index0 (get_latest_versions w stg) = Inl e \<Longrightarrow>
     e = IndexError \<and> (\<forall>u. in_registry w u \<longrightarrow> stage_of w u \<noteq> stg)"
  by (cases "get_latest_versions w stg") (auto simp: index0_def get_latest_versions_Nil)

lemma transition_Inr:
  "transition_model_version_stage v stg w = Inr w' \<Longrightarrow>
     in_registry w v \<and> length (registry w') = length (registry w) \<and> mlruns w' = mlruns w
     \<and> train_calls w' = train_calls w
     \<and> (\<forall>u. in_registry w u \<longrightarrow> stage_of w' u = (if u = v then stg else stage_of w u))"
  by (auto simp: transition_model_version_stage_def in_registry_def stage_of_def nth_list_update
           split: if_splits)

lemma transition_ok:
  "in_registry w v \<Longrightarrow> \<exists>w'. transition_model_version_stage v stg w = Inr w'"
  by (simp add: transition_model_version_stage_def in_registry_def)

lemma set_tag_Inr:
  "set_model_version_tag v k val w = Inr w' \<Longrightarrow>
     in_registry w v \<and> length (registry w') = length (registry w) \<and> mlruns w' = mlruns w
     \<and> train_calls w' = train_calls w
     \<and> (\<forall>u. in_registry w u \<longrightarrow> stage_of w' u = stage_of w u)"
  by (auto simp: set_model_version_tag_def in_registry_def stage_of_def nth_list_update
           split: if_splits)

lemma set_tag_ok:
  "in_registry w v \<Longrightarrow> \<exists>w'. set_model_version_tag v k val w = Inr w'"
  by (simp add: set_model_version_tag_def in_registry_def)

lemma in_registry_cong: "length (registry w') = length (registry w) \<Longrightarrow> in_registry w' = in_registry w"
  by (auto simp: in_registry_def fun_eq_iff)

lemma register_version_props:
  "register_version rid w = (v, w') \<Longrightarrow>
     v = Suc (length (registry w)) \<and> length (registry w') = Suc (length (registry w))
     \<and> mlruns w' = mlruns w \<and> train_calls w' = train_calls w
     \<and> stage_of w' v = NoStage
     \<and> (\<forall>u. in_registry w u \<longrightarrow> stage_of w' u = stage_of w u)"
  by (auto simp: register_version_def in_registry_def stage_of_def nth_append)

lemma params_log_param:
  "rid < length (mlruns w) \<Longrightarrow>
   params (mlruns (log_param rid k v w) ! rid) = params (mlruns w ! rid) @ [(k, v)]"
  by (simp add: log_param_def)


lemma archive_props:
  assumes uniq: "length (production_versions w) \<le> 1"
  shows "\<exists>w1. archive_current_production w = Inr w1
           \<and> length (registry w1) = length (registry w) \<and> mlruns w1 = mlruns w
           \<and> train_calls w1 = train_calls w
           \<and> (\<forall>u. in_registry w u \<longrightarrow>
                  stage_of w1 u = (if stage_of w u = Production then Archived else stage_of w u))"
proof (cases "index0 (get_latest_versions w Production)")
  case (Inl e)
  from index0_latest_Inl [OF Inl] have e: "e = IndexError"
    and none: "\<forall>u. in_registry w u \<longrightarrow> stage_of w u \<noteq> Production"
    by blast+
  have "archive_current_production w = Inr w"
    by (simp add: archive_current_production_def Inl e)
  with none show ?thesis
    by simp
next
  case (Inr p)
  from index0_latest_Inr [OF Inr] have p: "in_registry w p" "stage_of w p = Production"
    by blast+
  from transition_ok [OF p(1)] obtain w1 where
    t: "transition_model_version_stage p Archived w = Inr w1"
    by blast
  note tp = transition_Inr [OF t]
  have only: "\<And>u. in_registry w u \<Longrightarrow> stage_of w u = Production \<Longrightarrow> u = p"
    using uniq p unfolding at_most_one_iff by blast
  have arch: "archive_current_production w = Inr w1"
    by (simp add: archive_current_production_def Inr t)
  have stages: "\<forall>u. in_registry w u \<longrightarrow>
                  stage_of w1 u = (if stage_of w u = Production then Archived else stage_of w u)"
  proof (intro allI impI)
    fix u
    assume u: "in_registry w u"
    from tp u have s1: "stage_of w1 u = (if u = p then Archived else stage_of w u)"
      by blast
    show "stage_of w1 u = (if stage_of w u = Production then Archived else stage_of w u)"
    proof (cases "u = p")
      case True
      with s1 p show ?thesis by simp
    next
      case False
      with only [OF u] have "stage_of w u \<noteq> Production" by blast
      with s1 False show ?thesis by simp
    qed
  qed
  from tp have "length (registry w1) = length (registry w)" "mlruns w1 = mlruns w"
    "train_calls w1 = train_calls w"
    by blast+
  with arch stages show ?thesis
    by blast
qed

lemma promote_new_version_ok:
  assumes v: "model_version mi = Some v" and reg: "in_registry w1 v"
      and em: "evaluation_metrics mi = Some em"
  shows "\<exists>w'. promote_new_version now fmt3f mi ab w1 = (Inr ''promoted'', w')
           \<and> length (registry w') = length (registry w1)
           \<and> (\<forall>u. in_registry w1 u \<longrightarrow>
                  stage_of w' u = (if u = v then Production else stage_of w1 u))"
proof -
  from transition_ok [OF reg] obtain w2 where
    t2: "transition_model_version_stage v Production w1 = Inr w2" by blast
  note p2 = transition_Inr [OF t2]
  have reg2: "in_registry w2 v" using reg p2 by (simp add: in_registry_def)
  from set_tag_ok [OF reg2] obtain w3 where
    t3: "set_model_version_tag v ''promoted_to_production'' now w2 = Inr w3" by blast
  note p3 = set_tag_Inr [OF t3]
  have reg3: "in_registry w3 v" using reg2 p3 by (simp add: in_registry_def)
  from set_tag_ok [OF reg3] obtain w4 where
    t4: "set_model_version_tag v ''promotion_reason'' (promotion_reason fmt3f ab) w3 = Inr w4" by blast
  note p4 = set_tag_Inr [OF t4]
  have stages: "\<forall>u. in_registry w1 u \<longrightarrow>
                  stage_of w4 u = (if u = v then Production else stage_of w1 u)"
    using p2 p3 p4 by (simp add: in_registry_def)
  have len: "length (registry w4) = length (registry w1)"
    using p2 p3 p4 by simp
  show ?thesis
    using stages len
    by (simp add: promote_new_version_def v em t2 t3 t4 split_def stage_of_def in_registry_def)
qed

lemma promote_new_version_any:
  assumes "promote_new_version now fmt3f mi ab w1 = (r, w')"
  shows "length (registry w') = length (registry w1)
         \<and> (\<forall>u. in_registry w1 u \<longrightarrow>
                stage_of w' u = stage_of w1 u
                \<or> (model_version mi = Some u \<and> stage_of w' u = Production))"
proof (cases "model_version mi")
  case None
  with assms show ?thesis by (simp add: promote_new_version_def)
next
  case (Some v)
  show ?thesis
  proof (cases "transition_model_version_stage v Production w1")
    case (Inl e)
    with assms Some show ?thesis by (simp add: promote_new_version_def)
  next
    case (Inr w2)
    note p2 = transition_Inr [OF Inr]
    have a2: "length (registry w2) = length (registry w1)
         \<and> (\<forall>u. in_registry w1 u \<longrightarrow>
                stage_of w2 u = stage_of w1 u
                \<or> (model_version mi = Some u \<and> stage_of w2 u = Production))"
      using p2 Some by auto
    show ?thesis
    proof (cases "set_model_version_tag v ''promoted_to_production'' now w2")
      case (Inl e)
      with assms Some Inr a2 show ?thesis by (simp add: promote_new_version_def)
    next
      case w3: (Inr w3)
      note p3 = set_tag_Inr [OF w3]
      have a3: "length (registry w3) = length (registry w1)
         \<and> (\<forall>u. in_registry w1 u \<longrightarrow>
                stage_of w3 u = stage_of w1 u
                \<or> (model_version mi = Some u \<and> stage_of w3 u = Production))"
        using a2 p3 by (simp add: in_registry_def)
      show ?thesis
      proof (cases "set_model_version_tag v ''promotion_reason'' (promotion_reason fmt3f ab) w3")
        case (Inl e)
        with assms Some Inr w3 a3 show ?thesis by (simp add: promote_new_version_def)
      next
        case w4: (Inr w4)
        note p4 = set_tag_Inr [OF w4]
        have a4: "length (registry w4) = length (registry w1)
           \<and> (\<forall>u. in_registry w1 u \<longrightarrow>
                stage_of w4 u = stage_of w1 u
                \<or> (model_version mi = Some u \<and> stage_of w4 u = Production))"
          using a3 p4 by (simp add: in_registry_def)
        have "registry w' = registry w4"
          using assms Some Inr w3 w4
          by (auto simp: promote_new_version_def split_def split: option.splits)
        with a4 show ?thesis
          by (simp add: stage_of_def)
      qed
    qed
  qed
qed

subsection \<open>Training failures\<close>

text \<open>
  Claim C7.  When the invocation of the external trainer raises \<open>e\<close>, the training
  stage ends with the same exception \<open>e\<close>; the run it started then carries the parameter
  \<open>training_status = failed\<close> and the parameter \<open>error_message\<close> with the text of \<open>e\<close>;
  the trainer has been invoked exactly once (no second attempt, whatever a second
  invocation would have returned); no model version has been registered and no
  \<open>model_info\<close> is produced.
\<close>

theorem train_failure_recorded:
  assumes "trainer (train_calls w) (train_config (length (mlruns w))) = Inl e"
  shows "\<exists>w'. train_yolo_model trainer ds w = (Inl e, w')
           \<and> dict_get (params (mlruns w' ! length (mlruns w))) ''training_status''
               = Some (PStr ''failed'')
           \<and> dict_get (params (mlruns w' ! length (mlruns w))) ''error_message''
               = Some (PStr (str_exn e))
           \<and> train_calls w' = Suc (train_calls w)
           \<and> registry w' = registry w
           \<and> length (mlruns w') = Suc (length (mlruns w))"
  using assms
  by (simp add: train_yolo_model_def Let_def split_def params_log_param dict_get_def)

theorem train_failure_recorded_witness:
  "flaky_trainer (train_calls fresh_world) (train_config (length (mlruns fresh_world)))
     = Inl (Exception ''CUDA out of memory'')
   \<and> fst (train_yolo_model flaky_trainer dataset_info fresh_world)
       = Inl (Exception ''CUDA out of memory'')
   \<and> train_calls (snd (train_yolo_model flaky_trainer dataset_info fresh_world)) = 1
   \<and> registry (snd (train_yolo_model flaky_trainer dataset_info fresh_world)) = []"
proof -
  have fails: "flaky_trainer (train_calls fresh_world) (train_config (length (mlruns fresh_world)))
                 = Inl (Exception ''CUDA out of memory'')"
    by (simp add: flaky_trainer_def fresh_world_def)
  from train_failure_recorded
         [of flaky_trainer fresh_world "Exception ''CUDA out of memory''" dataset_info, OF fails]
  obtain w' where
    "train_yolo_model flaky_trainer dataset_info fresh_world
       = (Inl (Exception ''CUDA out of memory''), w')"
    "train_calls w' = Suc (train_calls fresh_world)"
    "registry w' = registry fresh_world"
    by blast
  then have "fst (train_yolo_model flaky_trainer dataset_info fresh_world)
               = Inl (Exception ''CUDA out of memory'')"
    "train_calls (snd (train_yolo_model flaky_trainer dataset_info fresh_world)) = 1"
    "registry (snd (train_yolo_model flaky_trainer dataset_info fresh_world)) = []"
    by (simp_all add: fresh_world_def)
  with fails show ?thesis
    by blast
qed

subsection \<open>Evaluation: F1 and the quality label\<close>

text \<open>
  Claim C1 fails on the code.  The F1 entry is \<open>2 * (mp * mr) / (mp + mr)\<close> with no test
  of the denominator: with mean precision 0 and mean recall 0 the division raises
  \<open>ZeroDivisionError\<close>, and the evaluation stage ends with that exception (or, when the
  run to resume does not exist, with the tracker's error) instead of a fallback value.
\<close>

theorem evaluate_model_f1_zero_division:
  "compute_evaluation_metrics \<lparr>box_map50 = m, box_map = m', box_mp = 0, box_mr = 0\<rparr>
     = Inl ZeroDivisionError
   \<and> fst (evaluate_model (Inr \<lparr>box_map50 = m, box_map = m', box_mp = 0, box_mr = 0\<rparr>) mi w)
     = Inl (if run_id mi < length (mlruns w) then ZeroDivisionError
            else MlflowException ''Run not found'')"
  by (simp add: compute_evaluation_metrics_def py_truediv_def evaluate_model_def Let_def)

text \<open>
  Claim C5.  Whenever the evaluation stage succeeds, the validation returned results,
  and the quality label is \<open>good\<close> exactly when their mAP@0.5 is strictly greater than
  0.70 and \<open>needs_improvement\<close> exactly when it is not.  The witness evaluates the stage
  at mAP@0.5 = 0.70 (needs\_improvement) and at 0.701 (good).
\<close>

theorem quality_label_threshold:
  assumes "fst (evaluate_model validation mi w) = Inr mi'"
  shows "\<exists>vr. validation = Inr vr
           \<and> (model_quality mi' = Some ''good'' \<longleftrightarrow> box_map50 vr > 7 / 10)
           \<and> (model_quality mi' = Some ''needs_improvement'' \<longleftrightarrow> \<not> box_map50 vr > 7 / 10)"
  using assms
  by (auto simp: evaluate_model_def Let_def compute_evaluation_metrics_def py_truediv_def
           split: if_splits sum.splits)

theorem quality_label_threshold_witness:
  "(\<exists>mi'. fst (evaluate_model
               (Inr \<lparr>box_map50 = 7 / 10, box_map = 1 / 2, box_mp = 4 / 5, box_mr = 3 / 5\<rparr>)
               \<lparr>run_id = 0, model_version = None, training_metrics = [],
                evaluation_metrics = None, model_quality = None, ab_test_results = None\<rparr>
               \<lparr>mlruns = [\<lparr>run_name = ''yolo_training'', params = [], metrics = []\<rparr>],
                registry = [], train_calls = 1\<rparr>) = Inr mi'
          \<and> model_quality mi' = Some ''needs_improvement'')
   \<and> (\<exists>mi'. fst (evaluate_model
               (Inr \<lparr>box_map50 = 701 / 1000, box_map = 1 / 2, box_mp = 4 / 5, box_mr = 3 / 5\<rparr>)
               \<lparr>run_id = 0, model_version = None, training_metrics = [],
                evaluation_metrics = None, model_quality = None, ab_test_results = None\<rparr>
               \<lparr>mlruns = [\<lparr>run_name = ''yolo_training'', params = [], metrics = []\<rparr>],
                registry = [], train_calls = 1\<rparr>) = Inr mi'
          \<and> model_quality mi' = Some ''good'')"
proof -
  let ?mi = "\<lparr>run_id = 0, model_version = None, training_metrics = [],
               evaluation_metrics = None, model_quality = None, ab_test_results = None\<rparr>"
  let ?w = "\<lparr>mlruns = [\<lparr>run_name = ''yolo_training'', params = [], metrics = []\<rparr>],
              registry = [], train_calls = 1\<rparr>"
  let ?lo = "\<lparr>box_map50 = 7 / 10, box_map = 1 / 2, box_mp = 4 / 5, box_mr = 3 / 5\<rparr>"
  let ?hi = "\<lparr>box_map50 = 701 / 1000, box_map = 1 / 2, box_mp = 4 / 5, box_mr = 3 / 5\<rparr>"
  obtain lo where lo: "fst (evaluate_model (Inr ?lo) ?mi ?w) = Inr lo"
    by (simp add: evaluate_model_def Let_def compute_evaluation_metrics_def py_truediv_def)
  obtain hi where hi: "fst (evaluate_model (Inr ?hi) ?mi ?w) = Inr hi"
    by (simp add: evaluate_model_def Let_def compute_evaluation_metrics_def py_truediv_def)
  from quality_label_threshold [OF lo] have "model_quality lo = Some ''needs_improvement''"
    by simp
  moreover from quality_label_threshold [OF hi] have "model_quality hi = Some ''good''"
    by simp
  ultimately show ?thesis
    using lo hi by blast
qed


subsection \<open>The promotion rule\<close>

lemma archive_total:
  "\<exists>w1. archive_current_production w = Inr w1 \<and> length (registry w1) = length (registry w)"
proof (cases "index0 (get_latest_versions w Production)")
  case (Inl e)
  from index0_latest_Inl [OF Inl] have "e = IndexError"
    by blast
  then show ?thesis
    by (simp add: archive_current_production_def Inl)
next
  case (Inr p)
  from index0_latest_Inr [OF Inr] have "in_registry w p"
    by blast
  from transition_ok [OF this] obtain w1 where
    t: "transition_model_version_stage p Archived w = Inr w1"
    by blast
  from transition_Inr [OF t] have "length (registry w1) = length (registry w)"
    by blast
  then show ?thesis
    by (simp add: archive_current_production_def Inr t)
qed

text \<open>
  Claim C2.  For a record that carries a verdict, a quality label, evaluation metrics
  and the new version, a version of the registry: the promotion stage answers
  \<open>promoted\<close> exactly when the quality is \<open>good\<close>, the verdict is significant and the new
  score is strictly greater than 0.60, and then the new version is at stage Production;
  when the rule fails the answer is \<open>not_promoted\<close> and the tracker, with the stage of
  every version, is unchanged.  The witness runs the stage at score 0.60 (not promoted)
  and 0.61 (promoted), both with good quality and a significant verdict.
\<close>

theorem promotion_rule:
  assumes ab: "ab_test_results mi = Some ab"
      and q: "model_quality mi = Some quality"
      and v: "model_version mi = Some v"
      and reg: "in_registry w v"
      and em: "evaluation_metrics mi = Some em"
  shows "(fst (promote_to_production now fmt3f mi w) = Inr ''promoted'' \<longleftrightarrow>
            quality = ''good'' \<and> significant_improvement ab \<and> new_model_score ab > 6 / 10)
         \<and> (quality = ''good'' \<and> significant_improvement ab \<and> new_model_score ab > 6 / 10 \<longrightarrow>
              stage_of (snd (promote_to_production now fmt3f mi w)) v = Production)
         \<and> (\<not> (quality = ''good'' \<and> significant_improvement ab \<and> new_model_score ab > 6 / 10) \<longrightarrow>
              promote_to_production now fmt3f mi w = (Inr ''not_promoted'', w))"
proof -
  define rule where
    "rule \<longleftrightarrow> quality = ''good'' \<and> significant_improvement ab \<and> new_model_score ab > 6 / 10"
  have unfold: "promote_to_production now fmt3f mi w =
      (if rule then (case archive_current_production w of
                       Inl e \<Rightarrow> (Inl e, w)
                     | Inr w1 \<Rightarrow> promote_new_version now fmt3f mi ab w1)
       else (Inr ''not_promoted'', w))"
    unfolding rule_def using ab q by (simp add: promote_to_production_def)
  have "(fst (promote_to_production now fmt3f mi w) = Inr ''promoted'' \<longleftrightarrow> rule)
         \<and> (rule \<longrightarrow> stage_of (snd (promote_to_production now fmt3f mi w)) v = Production)
         \<and> (\<not> rule \<longrightarrow> promote_to_production now fmt3f mi w = (Inr ''not_promoted'', w))"
  proof (cases rule)
    case False
    with unfold show ?thesis
      by simp
  next
    case True
    from archive_total [of w] obtain w1 where
      a: "archive_current_production w = Inr w1"
      and len: "length (registry w1) = length (registry w)"
      by blast
    have reg1: "in_registry w1 v"
      using reg len by (simp add: in_registry_def)
    from promote_new_version_ok [OF v reg1 em, of now fmt3f ab] obtain w' where
      p: "promote_new_version now fmt3f mi ab w1 = (Inr ''promoted'', w')"
      and st: "\<forall>u. in_registry w1 u \<longrightarrow> stage_of w' u = (if u = v then Production else stage_of w1 u)"
      by blast
    have "promote_to_production now fmt3f mi w = (Inr ''promoted'', w')"
      using True a p by (simp add: unfold)
    moreover from st reg1 have "stage_of w' v = Production"
      by simp
    ultimately show ?thesis
      using True by simp
  qed
  then show ?thesis
    unfolding rule_def .
qed

theorem promotion_rule_witness:
  "fst (promote_to_production ''2024-01-08'' (\<lambda>x. ''0.100'') (example_info (6 / 10)) example_world)
     = Inr ''not_promoted''
   \<and> snd (promote_to_production ''2024-01-08'' (\<lambda>x. ''0.100'') (example_info (6 / 10)) example_world)
     = example_world
   \<and> fst (promote_to_production ''2024-01-08'' (\<lambda>x. ''0.110'') (example_info (61 / 100)) example_world)
     = Inr ''promoted''
   \<and> stage_of (snd (promote_to_production ''2024-01-08'' (\<lambda>x. ''0.110'') (example_info (61 / 100))
         example_world)) 2 = Production"
proof -
  have reg: "in_registry example_world 2"
    by (simp add: in_registry_def example_world_def)
  have fields: "ab_test_results (example_info s) =
      Some \<lparr>new_model_version = Some 2, prod_model_version = Some 1,
            new_model_score = s, prod_model_score = 1 / 2,
            improvement = s - 1 / 2, significant_improvement = True\<rparr>"
    "model_quality (example_info s) = Some ''good''"
    "model_version (example_info s) = Some 2"
    "evaluation_metrics (example_info s) = Some example_metrics" for s
    by (simp_all add: example_info_def)
  note lo = promotion_rule [OF fields(1) [of "6 / 10"] fields(2) fields(3) reg fields(4),
      where now = "''2024-01-08''" and fmt3f = "\<lambda>x. ''0.100''"]
  note hi = promotion_rule [OF fields(1) [of "61 / 100"] fields(2) fields(3) reg fields(4),
      where now = "''2024-01-08''" and fmt3f = "\<lambda>x. ''0.110''"]
  from lo have "promote_to_production ''2024-01-08'' (\<lambda>x. ''0.100'') (example_info (6 / 10)) example_world
                  = (Inr ''not_promoted'', example_world)"
    by simp
  moreover from hi have
    "fst (promote_to_production ''2024-01-08'' (\<lambda>x. ''0.110'') (example_info (61 / 100)) example_world)
       = Inr ''promoted''"
    "stage_of (snd (promote_to_production ''2024-01-08'' (\<lambda>x. ''0.110'') (example_info (61 / 100))
         example_world)) 2 = Production"
    by simp_all
  ultimately show ?thesis
    by simp
qed

subsection \<open>The comparison verdict\<close>

lemma get_latest_versions_last:
  "get_latest_versions w Production =
     (if production_versions w = [] then [] else [last (production_versions w)])"
proof -
  let ?P = "\<lambda>v. current_stage (registry w ! (v - 1)) = Production"
  let ?xs = "[1..<Suc (length (registry w))]"
  have "filter ?P (rev ?xs) = rev (filter ?P ?xs)"
    by (simp only: rev_filter)
  then have "get_latest_versions w Production =
      (case rev (production_versions w) of [] \<Rightarrow> [] | v # _ \<Rightarrow> [v])"
    by (simp only: get_latest_versions_def production_versions_def)
  also have "\<dots> = (if production_versions w = [] then [] else [last (production_versions w)])"
    by (cases "production_versions w" rule: rev_cases) simp_all
  finally show ?thesis .
qed

text \<open>
  Claim C3.  For a record that carries evaluation metrics, and a registry whose
  versions come from runs of the tracker, the comparison stage stores exactly the
  reference verdict: with no version at Production, previous version null, previous
  score 0.0 and significant, whatever the new score; with one, the previous score is
  the mAP@0.5 stored by its originating run (0.0 when absent), the improvement is the
  float difference of the new score and the previous score, and the verdict is
  significant exactly when the improvement is strictly greater than the float 0.05.
  The stage changes no version.  The witness runs the stage on the floats 0.55 against
  a stored 0.5 (the float difference exceeds the float 0.05: significant), 0.1 against
  a stored 0.05 and 0.05 against a run with no stored metric (the difference is the
  float 0.05 itself: not significant), and 0.75 with no version at Production
  (significant).
\<close>

theorem comparison_verdict:
  assumes em: "evaluation_metrics mi = Some em"
      and runs: "\<forall>mv \<in> set (registry w). version_run_id mv < length (mlruns w)"
  shows "fst (run_ab_test mi w) =
           Inr (mi\<lparr>ab_test_results :=
                  Some (reference_verdict (model_version mi) (map50 em) (production_entry w))\<rparr>)
         \<and> registry (snd (run_ab_test mi w)) = registry w"
proof (cases "production_versions w = []")
  case True
  then have "index0 (get_latest_versions w Production) = Inl IndexError"
    by (simp add: get_latest_versions_last index0_def)
  then show ?thesis
    using em True
    by (simp add: run_ab_test_def reference_verdict_def production_entry_def)
next
  case False
  define p where "p = last (production_versions w)"
  have idx: "index0 (get_latest_versions w Production) = Inr p"
    using False by (simp add: get_latest_versions_last index0_def p_def)
  from index0_latest_Inr [OF idx] have "in_registry w p"
    by blast
  then have "p - 1 < length (registry w)"
    unfolding in_registry_def by arith
  then have "registry w ! (p - 1) \<in> set (registry w)"
    by (rule nth_mem)
  with runs have "version_run_id (registry w ! (p - 1)) < length (mlruns w)"
    by blast
  then have run: "get_run (version_run_id (registry w ! (p - Suc 0))) w
                    = Inr (mlruns w ! version_run_id (registry w ! (p - Suc 0)))"
    by (simp add: get_run_def)
  have entry: "production_entry w =
      Some (p, dict_get (metrics (mlruns w ! version_run_id (registry w ! (p - Suc 0)))) ''eval_map50'')"
    using False by (simp add: production_entry_def p_def Let_def)
  show ?thesis
    by (simp add: run_ab_test_def idx em run entry reference_verdict_def Let_def split_def)
qed

text \<open>
  The rounding on known cases: the literal 0.05; ties, which go to the even
  neighbour; a value that is not a float; a difference that is not exact
  (0.9 - 0.05 in Python is the float 7656119366529843 / 2^53).
\<close>

lemma float_literal_0_05:
  "round_to_double (5 / 100) = float_0_05"
  "round_to_double (1 / 20) = float_0_05"
  by (simp_all add: round_to_double_def round_half_even_def scale_down.simps scale_up.simps
        float_0_05_def)

lemma round_to_double_examples:
  "round_to_double (2 ^ 53 + 1) = 2 ^ 53"
  "round_to_double (2 ^ 53 + 3) = 2 ^ 53 + 4"
  "round_to_double (- (1 / 3)) = - (6004799503160661 / 2 ^ 54)"
  "float_sub (8106479329266893 / 2 ^ 53) float_0_05 = 7656119366529843 / 2 ^ 53"
  by (simp_all add: float_sub_def round_to_double_def round_half_even_def
        scale_down.simps scale_up.simps float_0_05_def)

lemma float_sub_examples:
  "float_sub float_0_55 (1 / 2) = 225179981368525 / 2 ^ 52"
  "float_sub float_0_1 float_0_05 = float_0_05"
  "float_sub float_0_05 0 = float_0_05"
  by (simp_all add: float_sub_def round_to_double_def round_half_even_def
        scale_down.simps scale_up.simps float_0_05_def float_0_1_def float_0_55_def)

theorem comparison_verdict_witness:
  "evaluation_metrics (candidate_info (3 / 4)) = Some (example_metrics\<lparr>map50 := 3 / 4\<rparr>)
   \<and> list_all (\<lambda>mv. version_run_id mv < length (mlruns staging_world)) (registry staging_world)
   \<and> fst (run_ab_test (candidate_info float_0_55) (comparison_world [(''eval_map50'', 1 / 2)])) =
       Inr ((candidate_info float_0_55)\<lparr>ab_test_results :=
              Some \<lparr>new_model_version = Some 2, prod_model_version = Some 1,
                    new_model_score = float_0_55, prod_model_score = 1 / 2,
                    improvement = 225179981368525 / 2 ^ 52,
                    significant_improvement = True\<rparr>\<rparr>)
   \<and> fst (run_ab_test (candidate_info float_0_1)
            (comparison_world [(''eval_map50'', float_0_05)])) =
       Inr ((candidate_info float_0_1)\<lparr>ab_test_results :=
              Some \<lparr>new_model_version = Some 2, prod_model_version = Some 1,
                    new_model_score = float_0_1, prod_model_score = float_0_05,
                    improvement = float_0_05, significant_improvement = False\<rparr>\<rparr>)
   \<and> fst (run_ab_test (candidate_info float_0_05) (comparison_world [])) =
       Inr ((candidate_info float_0_05)\<lparr>ab_test_results :=
              Some \<lparr>new_model_version = Some 2, prod_model_version = Some 1,
                    new_model_score = float_0_05, prod_model_score = 0,
                    improvement = float_0_05, significant_improvement = False\<rparr>\<rparr>)
   \<and> fst (run_ab_test (candidate_info (3 / 4)) staging_world) =
       Inr ((candidate_info (3 / 4))\<lparr>ab_test_results :=
              Some \<lparr>new_model_version = Some 2, prod_model_version = None,
                    new_model_score = 3 / 4, prod_model_score = 0,
                    improvement = 3 / 4, significant_improvement = True\<rparr>\<rparr>)"
proof -
  have em: "evaluation_metrics (candidate_info s) = Some (example_metrics\<lparr>map50 := s\<rparr>)" for s
    by (simp add: candidate_info_def)
  have v: "model_version (candidate_info s) = Some 2" for s
    by (simp add: candidate_info_def)
  have score: "map50 (example_metrics\<lparr>map50 := s\<rparr>) = s" for s
    by simp
  have runs: "\<forall>mv \<in> set (registry (comparison_world stored)).
                version_run_id mv < length (mlruns (comparison_world stored))" for stored
    by (simp add: comparison_world_def)
  have runs0: "\<forall>mv \<in> set (registry staging_world). version_run_id mv < length (mlruns staging_world)"
    by (simp add: staging_world_def)
  have entry: "production_entry (comparison_world stored) = Some (1, dict_get stored ''eval_map50'')"
    for stored
    by (simp add: production_entry_def production_versions_def comparison_world_def)
  have entry0: "production_entry staging_world = None"
    by (simp add: production_entry_def production_versions_def staging_world_def)
  have above: "float_0_05 < 225179981368525 / 2 ^ 52"
    by (simp add: float_0_05_def)
  have a: "fst (run_ab_test (candidate_info float_0_55) (comparison_world [(''eval_map50'', 1 / 2)])) =
       Inr ((candidate_info float_0_55)\<lparr>ab_test_results :=
              Some \<lparr>new_model_version = Some 2, prod_model_version = Some 1,
                    new_model_score = float_0_55, prod_model_score = 1 / 2,
                    improvement = 225179981368525 / 2 ^ 52,
                    significant_improvement = True\<rparr>\<rparr>)"
    using comparison_verdict [OF em runs, of float_0_55 "[(''eval_map50'', 1 / 2)]"] above
    by (simp add: entry v score reference_verdict_def dict_get_def float_literal_0_05
          float_sub_examples)
  have b: "fst (run_ab_test (candidate_info float_0_1)
            (comparison_world [(''eval_map50'', float_0_05)])) =
       Inr ((candidate_info float_0_1)\<lparr>ab_test_results :=
              Some \<lparr>new_model_version = Some 2, prod_model_version = Some 1,
                    new_model_score = float_0_1, prod_model_score = float_0_05,
                    improvement = float_0_05, significant_improvement = False\<rparr>\<rparr>)"
    using comparison_verdict [OF em runs, of float_0_1 "[(''eval_map50'', float_0_05)]"]
    by (simp add: entry v score reference_verdict_def dict_get_def float_literal_0_05
          float_sub_examples)
  have c: "fst (run_ab_test (candidate_info float_0_05) (comparison_world [])) =
       Inr ((candidate_info float_0_05)\<lparr>ab_test_results :=
              Some \<lparr>new_model_version = Some 2, prod_model_version = Some 1,
                    new_model_score = float_0_05, prod_model_score = 0,
                    improvement = float_0_05, significant_improvement = False\<rparr>\<rparr>)"
    using comparison_verdict [OF em runs, of float_0_05 "[]"]
    by (simp add: entry v score reference_verdict_def dict_get_def float_literal_0_05
          float_sub_examples)
  have d: "fst (run_ab_test (candidate_info (3 / 4)) staging_world) =
       Inr ((candidate_info (3 / 4))\<lparr>ab_test_results :=
              Some \<lparr>new_model_version = Some 2, prod_model_version = None,
                    new_model_score = 3 / 4, prod_model_score = 0,
                    improvement = 3 / 4, significant_improvement = True\<rparr>\<rparr>)"
    using comparison_verdict [OF em runs0, of "3 / 4"]
    by (simp add: entry0 v score reference_verdict_def)
  have l: "list_all (\<lambda>mv. version_run_id mv < length (mlruns staging_world)) (registry staging_world)"
    using runs0 by (simp only: list_all_iff)
  from em [of "3 / 4"] l a b c d show ?thesis
    by blast
qed

subsection \<open>At most one Production version\<close>

lemma nnp_refl: "no_new_production w w"
  by (simp add: no_new_production_def)

lemma nnp_registry_eq: "registry w' = registry w \<Longrightarrow> no_new_production w w'"
  by (simp add: no_new_production_def in_registry_def stage_of_def)

lemma nnp_trans:
  "no_new_production w w' \<Longrightarrow> no_new_production w' w'' \<Longrightarrow> no_new_production w w''"
  unfolding no_new_production_def by (meson le_trans)

lemma nnp_at_most_one:
  assumes "no_new_production w w'" and "length (production_versions w) \<le> 1"
  shows "length (production_versions w') \<le> 1"
  using assms unfolding at_most_one_iff no_new_production_def by blast

lemma nnp_register_version: "no_new_production w (snd (register_version rid w))"
proof -
  obtain v w' where r: "register_version rid w = (v, w')"
    by (cases "register_version rid w")
  note p = register_version_props [OF r]
  have "\<And>u. in_registry w' u \<Longrightarrow> stage_of w' u = Production \<Longrightarrow>
          in_registry w u \<and> stage_of w u = Production"
  proof -
    fix u
    assume u: "in_registry w' u" and st: "stage_of w' u = Production"
    have "u \<noteq> v"
      using p st by auto
    with u p have "in_registry w u"
      by (simp add: in_registry_def)
    with p st show "in_registry w u \<and> stage_of w u = Production"
      by simp
  qed
  then show ?thesis
    using p r by (simp add: no_new_production_def)
qed

lemma nnp_transition:
  assumes "transition_model_version_stage v stg w = Inr w'" and "stg \<noteq> Production"
  shows "no_new_production w w'"
proof -
  note p = transition_Inr [OF assms(1)]
  have "\<And>u. in_registry w' u \<Longrightarrow> stage_of w' u = Production \<Longrightarrow>
          in_registry w u \<and> stage_of w u = Production"
  proof -
    fix u
    assume u: "in_registry w' u" and st: "stage_of w' u = Production"
    from u p have u0: "in_registry w u"
      by (simp add: in_registry_def)
    with p have "stage_of w' u = (if u = v then stg else stage_of w u)"
      by blast
    with st assms(2) u0 show "in_registry w u \<and> stage_of w u = Production"
      by (simp split: if_splits)
  qed
  then show ?thesis
    using p by (simp add: no_new_production_def)
qed

lemma nnp_set_tag:
  assumes "set_model_version_tag v k val w = Inr w'"
  shows "no_new_production w w'"
proof -
  note p = set_tag_Inr [OF assms]
  have "\<And>u. in_registry w' u \<Longrightarrow> stage_of w' u = Production \<Longrightarrow>
          in_registry w u \<and> stage_of w u = Production"
  proof -
    fix u
    assume u: "in_registry w' u" and st: "stage_of w' u = Production"
    from u p have u0: "in_registry w u"
      by (simp add: in_registry_def)
    with p st show "in_registry w u \<and> stage_of w u = Production"
      by simp
  qed
  then show ?thesis
    using p by (simp add: no_new_production_def)
qed

lemma nnp_prepare_dataset: "no_new_production w (snd (prepare_dataset w))"
  by (rule nnp_registry_eq) (simp add: prepare_dataset_def split_def)

lemma nnp_train: "no_new_production w (snd (train_yolo_model trainer ds w))"
proof (cases "trainer (train_calls w) (train_config (length (mlruns w)))")
  case (Inl e)
  then have "registry (snd (train_yolo_model trainer ds w)) = registry w"
    by (simp add: train_yolo_model_def Let_def split_def)
  then show ?thesis
    by (rule nnp_registry_eq)
next
  case (Inr res)
  define w5 where "w5 = log_numeric_metrics (length (mlruns w))
      (case res of None \<Rightarrow> [] | Some d \<Rightarrow> d)
      ((log_params (length (mlruns w)) ds
         (log_params (length (mlruns w)) training_params
           (snd (start_run ''yolo_training'' w))))\<lparr>train_calls := Suc (train_calls w)\<rparr>)"
  have eq: "snd (train_yolo_model trainer ds w) = snd (register_version (length (mlruns w)) w5)"
    using Inr by (simp add: train_yolo_model_def Let_def split_def w5_def)
  have "registry w5 = registry w"
    by (simp add: w5_def)
  then have "no_new_production w w5"
    by (rule nnp_registry_eq)
  from nnp_trans [OF this nnp_register_version] show ?thesis
    by (simp add: eq)
qed

lemma registry_evaluate_model: "registry (snd (evaluate_model validation mi w)) = registry w"
  by (simp add: evaluate_model_def Let_def log_eval_metrics_def split: sum.splits)

lemma registry_run_ab_test: "registry (snd (run_ab_test mi w)) = registry w"
  by (simp add: run_ab_test_def Let_def split_def split: sum.splits option.splits exn.splits)

lemma nnp_register_model: "no_new_production w (snd (register_model now mi w))"
proof (cases "model_quality mi")
  case None
  then show ?thesis
    by (simp add: register_model_def nnp_refl)
next
  case (Some quality)
  obtain v w1 where r: "register_version (run_id mi) w = (v, w1)"
    by (cases "register_version (run_id mi) w")
  from nnp_register_version [of w "run_id mi"] r have n1: "no_new_production w w1"
    by simp
  show ?thesis
  proof (cases "quality = ''good''")
    case False
    with Some r n1 show ?thesis
      by (simp add: register_model_def)
  next
    case True
    show ?thesis
    proof (cases "transition_model_version_stage v Staging w1")
      case (Inl e)
      with Some r n1 True show ?thesis
        by (simp add: register_model_def)
    next
      case w2: (Inr w2)
      from nnp_trans [OF n1 nnp_transition [OF w2]] have n2: "no_new_production w w2"
        by simp
      show ?thesis
      proof (cases "set_model_version_tag v ''quality'' quality w2")
        case (Inl e)
        with Some r n2 True w2 show ?thesis
          by (simp add: register_model_def)
      next
        case w3: (Inr w3)
        from nnp_trans [OF n2 nnp_set_tag [OF w3]] have n3: "no_new_production w w3" .
        show ?thesis
        proof (cases "set_model_version_tag v ''training_date'' now w3")
          case (Inl e)
          with Some r n3 True w2 w3 show ?thesis
            by (simp add: register_model_def)
        next
          case w4: (Inr w4)
          from nnp_trans [OF n3 nnp_set_tag [OF w4]] have "no_new_production w w4" .
          with Some r True w2 w3 w4 show ?thesis
            by (simp add: register_model_def)
        qed
      qed
    qed
  qed
qed

lemma promote_keeps_at_most_one:
  assumes uniq: "length (production_versions w) \<le> 1"
  shows "length (production_versions (snd (promote_to_production now fmt3f mi w))) \<le> 1"
proof (cases "\<exists>ab w1. ab_test_results mi = Some ab \<and> archive_current_production w = Inr w1
                 \<and> promote_to_production now fmt3f mi w = promote_new_version now fmt3f mi ab w1")
  case False
  have "snd (promote_to_production now fmt3f mi w) = w"
  proof (cases "ab_test_results mi")
    case None
    then show ?thesis by (simp add: promote_to_production_def)
  next
    case ab: (Some ab)
    show ?thesis
    proof (cases "model_quality mi")
      case None
      with ab show ?thesis by (simp add: promote_to_production_def)
    next
      case (Some quality)
      from archive_props [OF uniq] obtain w1 where a: "archive_current_production w = Inr w1"
        by blast
      show ?thesis
      proof (cases "quality = ''good'' \<and> significant_improvement ab \<and> new_model_score ab > 6 / 10")
        case True
        then have "promote_to_production now fmt3f mi w = promote_new_version now fmt3f mi ab w1"
          using ab Some a by (simp add: promote_to_production_def)
        with False ab a show ?thesis by blast
      next
        case no: False
        have "promote_to_production now fmt3f mi w = (Inr ''not_promoted'', w)"
          unfolding promote_to_production_def ab Some Let_def option.case
          using no by (simp only: if_False)
        then show ?thesis by simp
      qed
    qed
  qed
  with uniq show ?thesis by simp
next
  case True
  then obtain ab w1 where a: "archive_current_production w = Inr w1"
    and eq: "promote_to_production now fmt3f mi w = promote_new_version now fmt3f mi ab w1"
    by blast
  from archive_props [OF uniq] a have len1: "length (registry w1) = length (registry w)"
    and st1: "\<forall>u. in_registry w u \<longrightarrow>
                stage_of w1 u = (if stage_of w u = Production then Archived else stage_of w u)"
    by auto
  have none1: "\<And>u. in_registry w1 u \<Longrightarrow> stage_of w1 u \<noteq> Production"
  proof -
    fix u assume "in_registry w1 u"
    with len1 have "in_registry w u" by (simp add: in_registry_def)
    with st1 show "stage_of w1 u \<noteq> Production" by simp
  qed
  obtain r w' where p: "promote_new_version now fmt3f mi ab w1 = (r, w')"
    by (cases "promote_new_version now fmt3f mi ab w1")
  from promote_new_version_any [OF p] have len': "length (registry w') = length (registry w1)"
    and st': "\<forall>u. in_registry w1 u \<longrightarrow>
                stage_of w' u = stage_of w1 u
                \<or> (model_version mi = Some u \<and> stage_of w' u = Production)"
    by blast+
  have "\<And>u u'. in_registry w' u \<Longrightarrow> stage_of w' u = Production \<Longrightarrow>
          in_registry w' u' \<Longrightarrow> stage_of w' u' = Production \<Longrightarrow> u = u'"
  proof -
    fix u u'
    assume u: "in_registry w' u" "stage_of w' u = Production"
      and u': "in_registry w' u'" "stage_of w' u' = Production"
    from u(1) u'(1) len' have r1: "in_registry w1 u" "in_registry w1 u'"
      by (simp_all add: in_registry_def)
    from st' r1(1) u(2) none1 [OF r1(1)] have "model_version mi = Some u"
      by auto
    moreover from st' r1(2) u'(2) none1 [OF r1(2)] have "model_version mi = Some u'"
      by auto
    ultimately show "u = u'" by simp
  qed
  then have "length (production_versions w') \<le> 1"
    unfolding at_most_one_iff by blast
  then show ?thesis
    by (simp add: eq p)
qed

lemma pipeline_run_keeps_at_most_one:
  assumes uniq: "length (production_versions w) \<le> 1"
  shows "length (production_versions (pipeline_run trainer fmt3f inp w)) \<le> 1"
proof -
  define w0 where "w0 = snd (prepare_dataset w)"
  define ds where "ds = fst (prepare_dataset w)"
  have u0: "length (production_versions w0) \<le> 1"
    using nnp_at_most_one [OF nnp_prepare_dataset uniq] by (simp add: w0_def)
  obtain r1 w1 where t: "train_yolo_model trainer ds w0 = (r1, w1)"
    by (cases "train_yolo_model trainer ds w0")
  have u1: "length (production_versions w1) \<le> 1"
    using nnp_at_most_one [OF nnp_train u0, of trainer ds] t by simp
  show ?thesis
  proof (cases r1)
    case (Inl e)
    with t u1 show ?thesis
      by (simp add: pipeline_run_def split_def w0_def ds_def)
  next
    case mi1: (Inr mi1)
    obtain r2 w2 where e: "evaluate_model (validation_outcome inp) mi1 w1 = (r2, w2)"
      by (cases "evaluate_model (validation_outcome inp) mi1 w1")
    have "registry w2 = registry w1"
      using registry_evaluate_model [of "validation_outcome inp" mi1 w1] e by simp
    then have u2: "length (production_versions w2) \<le> 1"
      using u1 by (simp add: production_versions_def)
    show ?thesis
    proof (cases r2)
      case (Inl e2)
      with t mi1 e u2 show ?thesis
        by (simp add: pipeline_run_def split_def w0_def ds_def)
    next
      case mi2: (Inr mi2)
      obtain r3 w3 where r: "register_model (clock inp) mi2 w2 = (r3, w3)"
        by (cases "register_model (clock inp) mi2 w2")
      have u3: "length (production_versions w3) \<le> 1"
        using nnp_at_most_one [OF nnp_register_model u2, of "clock inp" mi2] r by simp
      show ?thesis
      proof (cases r3)
        case (Inl e3)
        with t mi1 e mi2 r u3 show ?thesis
          by (simp add: pipeline_run_def split_def w0_def ds_def)
      next
        case mi3: (Inr mi3)
        obtain r4 w4 where a: "run_ab_test mi3 w3 = (r4, w4)"
          by (cases "run_ab_test mi3 w3")
        have "registry w4 = registry w3"
          using registry_run_ab_test [of mi3 w3] a by simp
        then have u4: "length (production_versions w4) \<le> 1"
          using u3 by (simp add: production_versions_def)
        show ?thesis
        proof (cases r4)
          case (Inl e4)
          with t mi1 e mi2 r mi3 a u4 show ?thesis
            by (simp add: pipeline_run_def split_def w0_def ds_def)
        next
          case mi4: (Inr mi4)
          from promote_keeps_at_most_one [OF u4, of "clock inp" fmt3f mi4]
          show ?thesis
            using t mi1 e mi2 r mi3 a mi4
            by (simp add: pipeline_run_def split_def w0_def ds_def)
        qed
      qed
    qed
  qed
qed

lemma pipeline_runs_keep_at_most_one:
  "length (production_versions w) \<le> 1 \<Longrightarrow>
   length (production_versions (pipeline_runs trainer fmt3f inps w)) \<le> 1"
proof (induction inps arbitrary: w)
  case Nil
  then show ?case by simp
next
  case (Cons inp inps)
  from pipeline_run_keeps_at_most_one [OF Cons.prems]
  have "length (production_versions (pipeline_run trainer fmt3f inp w)) \<le> 1" .
  from Cons.IH [OF this] show ?case by simp
qed

lemma singleton_list:
  "distinct xs \<Longrightarrow> set xs = {v} \<Longrightarrow> xs = [v]"
  by (cases xs; cases "tl xs") auto

text \<open>
  Claim C4.  A registry with at most one version at Production (in particular one with
  none) still has at most one after any sequence of pipeline runs, whatever the trainer
  and the validator do in each run.  And when the promotion rule holds for a new version
  of such a registry, the promotion succeeds whether or not a Production version exists,
  the new version is afterwards the only version at Production, the former Production
  version (if it is another version) is at Archived, and every other version keeps its
  stage.  The witness promotes version 2 over version 1.
\<close>

theorem one_production_version:
  "(length (production_versions w) \<le> 1 \<longrightarrow>
      length (production_versions (pipeline_runs trainer fmt3f inps w)) \<le> 1)
   \<and> (length (production_versions w) \<le> 1 \<and> ab_test_results mi = Some ab
        \<and> model_quality mi = Some ''good'' \<and> significant_improvement ab
        \<and> new_model_score ab > 6 / 10 \<and> model_version mi = Some v \<and> in_registry w v
        \<and> evaluation_metrics mi = Some em \<longrightarrow>
      fst (promote_to_production now fmt3f mi w) = Inr ''promoted''
      \<and> production_versions (snd (promote_to_production now fmt3f mi w)) = [v]
      \<and> (\<forall>p. p \<in> set (production_versions w) \<and> p \<noteq> v \<longrightarrow>
             stage_of (snd (promote_to_production now fmt3f mi w)) p = Archived)
      \<and> (\<forall>u. in_registry w u \<and> u \<noteq> v \<and> stage_of w u \<noteq> Production \<longrightarrow>
             stage_of (snd (promote_to_production now fmt3f mi w)) u = stage_of w u))"
proof (rule conjI; rule impI)
  assume "length (production_versions w) \<le> 1"
  then show "length (production_versions (pipeline_runs trainer fmt3f inps w)) \<le> 1"
    by (rule pipeline_runs_keep_at_most_one)
next
  assume h: "length (production_versions w) \<le> 1 \<and> ab_test_results mi = Some ab
        \<and> model_quality mi = Some ''good'' \<and> significant_improvement ab
        \<and> new_model_score ab > 6 / 10 \<and> model_version mi = Some v \<and> in_registry w v
        \<and> evaluation_metrics mi = Some em"
  then have uniq: "length (production_versions w) \<le> 1" and ab: "ab_test_results mi = Some ab"
    and q: "model_quality mi = Some ''good''" and sig: "significant_improvement ab"
    and sc: "new_model_score ab > 6 / 10" and v: "model_version mi = Some v"
    and reg: "in_registry w v" and em: "evaluation_metrics mi = Some em"
    by blast+
  from archive_props [OF uniq] obtain w1 where a: "archive_current_production w = Inr w1"
    and len1: "length (registry w1) = length (registry w)"
    and st1: "\<forall>u. in_registry w u \<longrightarrow>
                stage_of w1 u = (if stage_of w u = Production then Archived else stage_of w u)"
    by blast
  have reg1: "in_registry w1 v"
    using reg len1 by (simp add: in_registry_def)
  from promote_new_version_ok [OF v reg1 em, of now fmt3f ab] obtain w' where
    p: "promote_new_version now fmt3f mi ab w1 = (Inr ''promoted'', w')"
    and len': "length (registry w') = length (registry w1)"
    and st': "\<forall>u. in_registry w1 u \<longrightarrow> stage_of w' u = (if u = v then Production else stage_of w1 u)"
    by blast
  have res: "promote_to_production now fmt3f mi w = (Inr ''promoted'', w')"
    using ab q sig sc a p by (simp add: promote_to_production_def)
  have same: "in_registry w' = in_registry w" "in_registry w1 = in_registry w"
    using len1 len' by (simp_all add: in_registry_def fun_eq_iff)
  have stage: "\<And>u. in_registry w u \<Longrightarrow>
      stage_of w' u = (if u = v then Production
                       else if stage_of w u = Production then Archived else stage_of w u)"
    using st1 st' same by simp
  have "set (production_versions w') = {v}"
    unfolding set_production_versions same
    using stage reg by (auto split: if_splits)
  with distinct_production_versions have pv: "production_versions w' = [v]"
    by (rule singleton_list)
  have arch: "\<forall>p. p \<in> set (production_versions w) \<and> p \<noteq> v \<longrightarrow> stage_of w' p = Archived"
    unfolding set_production_versions using stage by simp
  have others: "\<forall>u. in_registry w u \<and> u \<noteq> v \<and> stage_of w u \<noteq> Production \<longrightarrow>
                  stage_of w' u = stage_of w u"
    using stage by simp
  show "fst (promote_to_production now fmt3f mi w) = Inr ''promoted''
      \<and> production_versions (snd (promote_to_production now fmt3f mi w)) = [v]
      \<and> (\<forall>p. p \<in> set (production_versions w) \<and> p \<noteq> v \<longrightarrow>
             stage_of (snd (promote_to_production now fmt3f mi w)) p = Archived)
      \<and> (\<forall>u. in_registry w u \<and> u \<noteq> v \<and> stage_of w u \<noteq> Production \<longrightarrow>
             stage_of (snd (promote_to_production now fmt3f mi w)) u = stage_of w u)"
    unfolding res using pv arch others by simp
qed

theorem one_production_version_witness:
  "length (production_versions fresh_world) \<le> 1
   \<and> length (production_versions
        (pipeline_runs steady_trainer (\<lambda>x. ''0.150'') example_runs fresh_world)) \<le> 1
   \<and> length (production_versions example_world) \<le> 1
   \<and> in_registry example_world 2
   \<and> fst (promote_to_production ''2024-01-08'' (\<lambda>x. ''0.110'') (example_info (61 / 100))
        example_world) = Inr ''promoted''
   \<and> production_versions (snd (promote_to_production ''2024-01-08'' (\<lambda>x. ''0.110'')
        (example_info (61 / 100)) example_world)) = [2]
   \<and> stage_of (snd (promote_to_production ''2024-01-08'' (\<lambda>x. ''0.110'')
        (example_info (61 / 100)) example_world)) 1 = Archived"
proof -
  have pv0: "production_versions fresh_world = []"
    by (simp add: production_versions_def fresh_world_def)
  have pv1: "production_versions example_world = [1]"
    by (simp add: production_versions_def example_world_def)
  have h0: "length (production_versions fresh_world) \<le> 1"
    by (simp add: pv0)
  have h1: "length (production_versions example_world) \<le> 1"
    by (simp add: pv1)
  have reg: "in_registry example_world 2"
    by (simp add: in_registry_def example_world_def)
  have fields: "ab_test_results (example_info (61 / 100)) =
      Some \<lparr>new_model_version = Some 2, prod_model_version = Some 1,
            new_model_score = 61 / 100, prod_model_score = 1 / 2,
            improvement = 61 / 100 - 1 / 2, significant_improvement = True\<rparr>"
    "model_quality (example_info (61 / 100)) = Some ''good''"
    "model_version (example_info (61 / 100)) = Some 2"
    "evaluation_metrics (example_info (61 / 100)) = Some example_metrics"
    by (simp_all add: example_info_def)
  note runs = one_production_version
    [where w = fresh_world and trainer = steady_trainer and fmt3f = "\<lambda>x. ''0.150''"
       and inps = example_runs, THEN conjunct1, rule_format, OF h0]
  note promo = one_production_version
    [where w = example_world and mi = "example_info (61 / 100)" and v = 2
       and em = example_metrics and now = "''2024-01-08''" and fmt3f = "\<lambda>x. ''0.110''"
       and ab = "\<lparr>new_model_version = Some 2, prod_model_version = Some 1,
            new_model_score = 61 / 100, prod_model_score = 1 / 2,
            improvement = 61 / 100 - 1 / 2, significant_improvement = True\<rparr>",
       THEN conjunct2, rule_format]
  have p: "fst (promote_to_production ''2024-01-08'' (\<lambda>x. ''0.110'') (example_info (61 / 100))
        example_world) = Inr ''promoted''
     \<and> production_versions (snd (promote_to_production ''2024-01-08'' (\<lambda>x. ''0.110'')
        (example_info (61 / 100)) example_world)) = [2]
     \<and> stage_of (snd (promote_to_production ''2024-01-08'' (\<lambda>x. ''0.110'')
        (example_info (61 / 100)) example_world)) 1 = Archived"
    using promo h1 reg fields by (simp add: pv1)
  from runs h0 h1 reg p show ?thesis
    by blast
qed

end
